theory Spec2Isabelle
  imports Complex_Main "HOL-Library.Multiset"
begin

section \<open>Numbers: IEEE-754 binary32\<close>

text \<open>
  Every number of \<^verbatim>\<open>partition.cpp\<close> is a C++ \<^verbatim>\<open>float\<close>, an IEEE-754 binary32
  number. A value is \<open>Fin r\<close> for a real \<open>r\<close>, one of the two infinities, or \<open>NaN\<close>.
  Every arithmetic operation computes the exact real result and rounds it to the nearest
  binary32 number, ties to the even significand (\<open>rnd\<close>): the result overflows to an
  infinity from \<open>2\<^sup>1\<^sup>2\<^sup>8 - 2\<^sup>1\<^sup>0\<^sup>3\<close> on, is a multiple of \<open>2\<^sup>-\<^sup>1\<^sup>4\<^sup>9\<close> in the subnormal
  range, and underflows to zero up to \<open>2\<^sup>-\<^sup>1\<^sup>5\<^sup>0\<close>. The binary32 numbers among the
  \<open>Fin r\<close> are those that rounding leaves unchanged (\<open>is_float\<close>). The sign of zero
  is not modelled: \<open>1 / 0\<close> is \<open>PInf\<close>. Each operation of the source rounds once, to
  binary32 (no wider intermediate precision, no fused multiply-add).
\<close>

datatype cfloat = Fin real | PInf | NInf | NaN

text \<open>The infinity with the sign of a real number, not-a-number for zero.\<close>

definition signed_inf :: "real \<Rightarrow> cfloat" where
  "signed_inf r = (if r = 0 then NaN else if 0 < r then PInf else NInf)"

text \<open>Rounding a real to the nearest integer, a tie to the even one.\<close>

definition round_half_even :: "real \<Rightarrow> int" where
  "round_half_even x =
     (let n = \<lfloor>x\<rfloor>; d = x - of_int n
      in if d < 1 / 2 then n else if 1 / 2 < d then n + 1 else if even n then n else n + 1)"

text \<open>
  With \<open>s = |x| \<sqdot> 2\<^sup>1\<^sup>4\<^sup>9\<close>, the binary32 numbers around \<open>x\<close> are the multiples of
  \<open>2\<^sup>L \<sqdot> 2\<^sup>-\<^sup>1\<^sup>4\<^sup>9\<close>, where \<open>L = level s\<close> is the greatest \<open>L\<close> with
  \<open>2\<^sup>L\<^sup>+\<^sup>2\<^sup>3 \<le> s\<close>, and 0 in the subnormal range and the first binade. It is found
  bit by bit, from the bit of weight 128 down.
\<close>

definition level_step :: "nat \<Rightarrow> real \<Rightarrow> nat \<Rightarrow> nat" where
  "level_step j s L = (if 2 ^ (L + j + 23) \<le> s then L + j else L)"

definition level :: "real \<Rightarrow> nat" where
  "level s =
     level_step 1 s (level_step 2 s (level_step 4 s (level_step 8 s
       (level_step 16 s (level_step 32 s (level_step 64 s (level_step 128 s 0)))))))"

definition rnd :: "real \<Rightarrow> cfloat" where
  "rnd x =
     (let s = \<bar>x\<bar> * 2 ^ 149
      in if 2 ^ 277 \<le> s then signed_inf x
         else let L = level s; k = round_half_even (s / 2 ^ L)
              in if 2 ^ 277 \<le> of_int k * (2::real) ^ L then signed_inf x
                 else Fin (sgn x * (of_int k * 2 ^ L / 2 ^ 149)))"

definition is_float :: "cfloat \<Rightarrow> bool" where
  "is_float x = (case x of Fin r \<Rightarrow> rnd r = Fin r | _ \<Rightarrow> True)"

fun fneg :: "cfloat \<Rightarrow> cfloat" where
  "fneg (Fin r) = Fin (- r)"
| "fneg PInf = NInf"
| "fneg NInf = PInf"
| "fneg NaN = NaN"

fun fabs :: "cfloat \<Rightarrow> cfloat" where
  "fabs (Fin r) = Fin \<bar>r\<bar>"
| "fabs PInf = PInf"
| "fabs NInf = PInf"
| "fabs NaN = NaN"

fun fadd :: "cfloat \<Rightarrow> cfloat \<Rightarrow> cfloat" where
  "fadd (Fin r) (Fin s) = rnd (r + s)"
| "fadd (Fin r) PInf = PInf"
| "fadd (Fin r) NInf = NInf"
| "fadd PInf (Fin s) = PInf"
| "fadd NInf (Fin s) = NInf"
| "fadd PInf PInf = PInf"
| "fadd NInf NInf = NInf"
| "fadd PInf NInf = NaN"
| "fadd NInf PInf = NaN"
| "fadd NaN y = NaN"
| "fadd x NaN = NaN"

definition fsub :: "cfloat \<Rightarrow> cfloat \<Rightarrow> cfloat" where
  "fsub x y = fadd x (fneg y)"

fun fmul :: "cfloat \<Rightarrow> cfloat \<Rightarrow> cfloat" where
  "fmul (Fin r) (Fin s) = rnd (r * s)"
| "fmul (Fin r) PInf = signed_inf r"
| "fmul (Fin r) NInf = signed_inf (- r)"
| "fmul PInf (Fin s) = signed_inf s"
| "fmul NInf (Fin s) = signed_inf (- s)"
| "fmul PInf PInf = PInf"
| "fmul NInf NInf = PInf"
| "fmul PInf NInf = NInf"
| "fmul NInf PInf = NInf"
| "fmul NaN y = NaN"
| "fmul x NaN = NaN"

fun fdiv :: "cfloat \<Rightarrow> cfloat \<Rightarrow> cfloat" where
  "fdiv (Fin r) (Fin s) = (if s = 0 then signed_inf r else rnd (r / s))"
| "fdiv (Fin r) PInf = Fin 0"
| "fdiv (Fin r) NInf = Fin 0"
| "fdiv PInf (Fin s) = (if 0 \<le> s then PInf else NInf)"
| "fdiv NInf (Fin s) = (if 0 \<le> s then NInf else PInf)"
| "fdiv PInf PInf = NaN"
| "fdiv NInf NInf = NaN"
| "fdiv PInf NInf = NaN"
| "fdiv NInf PInf = NaN"
| "fdiv NaN y = NaN"
| "fdiv x NaN = NaN"

fun fsqrt :: "cfloat \<Rightarrow> cfloat" where
  "fsqrt (Fin r) = (if r < 0 then NaN else rnd (sqrt r))"
| "fsqrt PInf = PInf"
| "fsqrt NInf = NaN"
| "fsqrt NaN = NaN"

text \<open>The comparison \<^verbatim>\<open><\<close>; it is false as soon as one side is \<open>NaN\<close>.\<close>

fun flt :: "cfloat \<Rightarrow> cfloat \<Rightarrow> bool" where
  "flt (Fin r) (Fin s) = (r < s)"
| "flt (Fin r) PInf = True"
| "flt NInf (Fin s) = True"
| "flt NInf PInf = True"
| "flt x y = False"

text \<open>\<^verbatim>\<open>x > y\<close> is \<^verbatim>\<open>y < x\<close>, and \<^verbatim>\<open>x >= y\<close> is true when \<open>y < x\<close> or the two are equal numbers.\<close>

definition fgt :: "cfloat \<Rightarrow> cfloat \<Rightarrow> bool" where
  "fgt x y = flt y x"

definition fge :: "cfloat \<Rightarrow> cfloat \<Rightarrow> bool" where
  "fge x y = (flt y x \<or> (x = y \<and> x \<noteq> NaN))"

definition is_finite :: "cfloat \<Rightarrow> bool" where
  "is_finite x = (case x of Fin r \<Rightarrow> True | _ \<Rightarrow> False)"

text \<open>\<^verbatim>\<open>std::min(a, b)\<close> is \<^verbatim>\<open>(b < a) ? b : a\<close> and \<^verbatim>\<open>std::max(a, b)\<close> is \<^verbatim>\<open>(a < b) ? b : a\<close>.\<close>

definition std_min :: "cfloat \<Rightarrow> cfloat \<Rightarrow> cfloat" where
  "std_min a b = (if flt b a then b else a)"

definition std_max :: "cfloat \<Rightarrow> cfloat \<Rightarrow> cfloat" where
  "std_max a b = (if flt a b then b else a)"

text \<open>\<^verbatim>\<open>FLT_MAX\<close>, the largest finite float: \<open>(2 - 2\<^sup>-\<^sup>2\<^sup>3) \<sqdot> 2\<^sup>1\<^sup>2\<^sup>7\<close>.\<close>

definition FLT_MAX :: cfloat where
  "FLT_MAX = Fin 340282346638528859811704183484516925440"


section \<open>The part of GLM the program uses\<close>

text \<open>
  GLM is an external header library; these are its definitions for \<^verbatim>\<open>vec3\<close> and
  \<^verbatim>\<open>mat3\<close>. None of them throws: a division by zero yields an infinity or \<open>NaN\<close>.
\<close>

record vec3 =
  vec3_x :: cfloat
  vec3_y :: cfloat
  vec3_z :: cfloat

definition Vec3 :: "cfloat \<Rightarrow> cfloat \<Rightarrow> cfloat \<Rightarrow> vec3" where
  "Vec3 x y z = \<lparr>vec3_x = x, vec3_y = y, vec3_z = z\<rparr>"

definition vec3_splat :: "cfloat \<Rightarrow> vec3" where
  "vec3_splat s = Vec3 s s s"

definition vec3_neg :: "vec3 \<Rightarrow> vec3" where
  "vec3_neg v = Vec3 (fneg (vec3_x v)) (fneg (vec3_y v)) (fneg (vec3_z v))"

definition vec3_add :: "vec3 \<Rightarrow> vec3 \<Rightarrow> vec3" where
  "vec3_add v w = Vec3 (fadd (vec3_x v) (vec3_x w)) (fadd (vec3_y v) (vec3_y w)) (fadd (vec3_z v) (vec3_z w))"

definition vec3_sub :: "vec3 \<Rightarrow> vec3 \<Rightarrow> vec3" where
  "vec3_sub v w = Vec3 (fsub (vec3_x v) (vec3_x w)) (fsub (vec3_y v) (vec3_y w)) (fsub (vec3_z v) (vec3_z w))"

definition vec3_scale :: "vec3 \<Rightarrow> cfloat \<Rightarrow> vec3" where
  "vec3_scale v s = Vec3 (fmul (vec3_x v) s) (fmul (vec3_y v) s) (fmul (vec3_z v) s)"

definition glm_dot :: "vec3 \<Rightarrow> vec3 \<Rightarrow> cfloat" where
  "glm_dot v w = fadd (fadd (fmul (vec3_x v) (vec3_x w)) (fmul (vec3_y v) (vec3_y w))) (fmul (vec3_z v) (vec3_z w))"

definition glm_inversesqrt :: "cfloat \<Rightarrow> cfloat" where
  "glm_inversesqrt s = fdiv (Fin 1) (fsqrt s)"

definition glm_normalize :: "vec3 \<Rightarrow> vec3" where
  "glm_normalize v = vec3_scale v (glm_inversesqrt (glm_dot v v))"

definition glm_abs :: "vec3 \<Rightarrow> vec3" where
  "glm_abs v = Vec3 (fabs (vec3_x v)) (fabs (vec3_y v)) (fabs (vec3_z v))"

text \<open>\<^verbatim>\<open>glm::all(glm::epsilonEqual(v, w, eps))\<close>: \<^verbatim>\<open>abs(v - w) < eps\<close> in every component.\<close>

definition glm_all_epsilonEqual :: "vec3 \<Rightarrow> vec3 \<Rightarrow> cfloat \<Rightarrow> bool" where
  "glm_all_epsilonEqual v w eps =
     (flt (fabs (fsub (vec3_x v) (vec3_x w))) eps \<and>
      flt (fabs (fsub (vec3_y v) (vec3_y w))) eps \<and>
      flt (fabs (fsub (vec3_z v) (vec3_z w))) eps)"

definition glm_cross :: "vec3 \<Rightarrow> vec3 \<Rightarrow> vec3" where
  "glm_cross v w = Vec3
     (fsub (fmul (vec3_y v) (vec3_z w)) (fmul (vec3_y w) (vec3_z v)))
     (fsub (fmul (vec3_z v) (vec3_x w)) (fmul (vec3_z w) (vec3_x v)))
     (fsub (fmul (vec3_x v) (vec3_y w)) (fmul (vec3_x w) (vec3_y v)))"

text \<open>
  A \<^verbatim>\<open>glm::mat3\<close> stores three columns, and its nine-scalar constructor fills it
  column by column: the first three arguments are column 0.
\<close>

record mat3 =
  col0 :: vec3
  col1 :: vec3
  col2 :: vec3

definition Mat3 :: "cfloat \<Rightarrow> cfloat \<Rightarrow> cfloat \<Rightarrow> cfloat \<Rightarrow> cfloat \<Rightarrow> cfloat \<Rightarrow> cfloat \<Rightarrow> cfloat \<Rightarrow> cfloat \<Rightarrow> mat3" where
  "Mat3 x0 y0 z0 x1 y1 z1 x2 y2 z2 = \<lparr>col0 = Vec3 x0 y0 z0, col1 = Vec3 x1 y1 z1, col2 = Vec3 x2 y2 z2\<rparr>"

text \<open>\<^verbatim>\<open>m * v\<close>: the linear combination of the columns of \<open>m\<close> with the components of \<open>v\<close>.\<close>

definition mat3_mul_vec :: "mat3 \<Rightarrow> vec3 \<Rightarrow> vec3" where
  "mat3_mul_vec m v = Vec3
     (fadd (fadd (fmul (vec3_x (col0 m)) (vec3_x v)) (fmul (vec3_x (col1 m)) (vec3_y v))) (fmul (vec3_x (col2 m)) (vec3_z v)))
     (fadd (fadd (fmul (vec3_y (col0 m)) (vec3_x v)) (fmul (vec3_y (col1 m)) (vec3_y v))) (fmul (vec3_y (col2 m)) (vec3_z v)))
     (fadd (fadd (fmul (vec3_z (col0 m)) (vec3_x v)) (fmul (vec3_z (col1 m)) (vec3_y v))) (fmul (vec3_z (col2 m)) (vec3_z v)))"

text \<open>
  \<^verbatim>\<open>glm::inverse\<close> of a \<^verbatim>\<open>mat3\<close>: every cofactor times one over the determinant.
  With \<open>m[i][j]\<close> for component \<open>j\<close> of column \<open>i\<close>, as in GLM.
\<close>

definition glm_determinant :: "mat3 \<Rightarrow> cfloat" where
  "glm_determinant m =
     (let m00 = vec3_x (col0 m); m01 = vec3_y (col0 m); m02 = vec3_z (col0 m);
          m10 = vec3_x (col1 m); m11 = vec3_y (col1 m); m12 = vec3_z (col1 m);
          m20 = vec3_x (col2 m); m21 = vec3_y (col2 m); m22 = vec3_z (col2 m)
      in fadd (fsub (fmul m00 (fsub (fmul m11 m22) (fmul m21 m12)))
                    (fmul m10 (fsub (fmul m01 m22) (fmul m21 m02))))
              (fmul m20 (fsub (fmul m01 m12) (fmul m11 m02))))"

definition glm_inverse :: "mat3 \<Rightarrow> mat3" where
  "glm_inverse m =
     (let m00 = vec3_x (col0 m); m01 = vec3_y (col0 m); m02 = vec3_z (col0 m);
          m10 = vec3_x (col1 m); m11 = vec3_y (col1 m); m12 = vec3_z (col1 m);
          m20 = vec3_x (col2 m); m21 = vec3_y (col2 m); m22 = vec3_z (col2 m);
          OneOverDeterminant = fdiv (Fin 1) (glm_determinant m)
      in \<lparr>col0 = Vec3 (fmul (fsub (fmul m11 m22) (fmul m21 m12)) OneOverDeterminant)
                       (fmul (fneg (fsub (fmul m01 m22) (fmul m21 m02))) OneOverDeterminant)
                       (fmul (fsub (fmul m01 m12) (fmul m11 m02)) OneOverDeterminant),
          col1 = Vec3 (fmul (fneg (fsub (fmul m10 m22) (fmul m20 m12))) OneOverDeterminant)
                       (fmul (fsub (fmul m00 m22) (fmul m20 m02)) OneOverDeterminant)
                       (fmul (fneg (fsub (fmul m00 m12) (fmul m10 m02))) OneOverDeterminant),
          col2 = Vec3 (fmul (fsub (fmul m10 m21) (fmul m20 m11)) OneOverDeterminant)
                       (fmul (fneg (fsub (fmul m00 m21) (fmul m20 m01))) OneOverDeterminant)
                       (fmul (fsub (fmul m00 m11) (fmul m10 m01)) OneOverDeterminant)\<rparr>)"


section \<open>Data model\<close>

text \<open>
  Modelled from the spec: the declarations of \<^verbatim>\<open>partition.h\<close> (Plane, Vertex,
  ContourPlane, PlaneGroup, BoundingBox, Edge, ConvexCell and the members of
  SpacePartitioner), which the source includes; the fields are those the code of
  \<^verbatim>\<open>partition.cpp\<close> reads and writes. Field names carry the name of their
  struct where the source's single letters would clash with variables. Indices are
  natural numbers.
\<close>

record Plane =
  plane_a :: cfloat
  plane_b :: cfloat
  plane_c :: cfloat
  plane_d :: cfloat

definition mkPlane :: "cfloat \<Rightarrow> cfloat \<Rightarrow> cfloat \<Rightarrow> cfloat \<Rightarrow> Plane" where
  "mkPlane a b c d = \<lparr>plane_a = a, plane_b = b, plane_c = c, plane_d = d\<rparr>"

record Vertex =
  vertex_x :: cfloat
  vertex_y :: cfloat
  vertex_z :: cfloat
  associatedPlanes :: "nat list"

text \<open>The constructor \<^verbatim>\<open>Vertex(x, y, z)\<close>; it leaves \<^verbatim>\<open>associatedPlanes\<close> empty.\<close>

definition mkVertex :: "cfloat \<Rightarrow> cfloat \<Rightarrow> cfloat \<Rightarrow> Vertex" where
  "mkVertex x y z = \<lparr>vertex_x = x, vertex_y = y, vertex_z = z, associatedPlanes = []\<rparr>"

record ContourPlane =
  plane :: Plane
  vertices :: "Vertex list"
  numVertices :: int

record PlaneGroup =
  normal :: vec3
  planes :: "ContourPlane list"

record BoundingBox =
  bbox_min :: vec3
  bbox_max :: vec3

record Edge =
  vertexIndex1 :: nat
  vertexIndex2 :: nat

record ConvexCell =
  cellVertices :: "Vertex list"
  edges :: "Edge list"
  boundaryPlanes :: "Plane list"

record SpacePartitioner =
  originalPlanes :: "ContourPlane list"
  parallelGroups :: "PlaneGroup list"
  nonParallelPlanes :: "ContourPlane list"
  cells :: "ConvexCell list"


section \<open>Classification of planes\<close>

definition plane_normal :: "Plane \<Rightarrow> vec3" where
  "plane_normal p = Vec3 (plane_a p) (plane_b p) (plane_c p)"

text \<open>The literal \<^verbatim>\<open>0.0001f\<close>: the binary32 number nearest to one ten-thousandth.\<close>

definition tolerance :: cfloat where
  "tolerance = rnd (1 / 10000)"

definition arePlanesParallel :: "Plane \<Rightarrow> Plane \<Rightarrow> bool" where
  "arePlanesParallel p1 p2 =
     (let n1 = plane_normal p1; n2 = plane_normal p2
      in glm_all_epsilonEqual (glm_abs (glm_normalize n1)) (glm_abs (glm_normalize n2)) tolerance)"


text \<open>
  The inner loop of \<^verbatim>\<open>classifyPlanes\<close>: the plane joins the first group whose
  first member it is parallel to; \<open>None\<close> is \<^verbatim>\<open>foundGroup == false\<close>. Every group
  the program builds has a member, so \<^verbatim>\<open>group.planes[0]\<close> exists.
\<close>

fun joinGroup :: "ContourPlane \<Rightarrow> PlaneGroup list \<Rightarrow> PlaneGroup list option" where
  "joinGroup contourPlane [] = None"
| "joinGroup contourPlane (g # gs) =
     (if arePlanesParallel (plane contourPlane) (plane (planes g ! 0))
      then Some (g\<lparr>planes := planes g @ [contourPlane]\<rparr> # gs)
      else map_option ((#) g) (joinGroup contourPlane gs))"

definition classifyPlane :: "ContourPlane \<Rightarrow> PlaneGroup list \<Rightarrow> PlaneGroup list" where
  "classifyPlane contourPlane groups =
     (case joinGroup contourPlane groups of
        Some groups' \<Rightarrow> groups'
      | None \<Rightarrow> groups @ [\<lparr>normal = plane_normal (plane contourPlane), planes = [contourPlane]\<rparr>])"

definition classifyPlanes :: "SpacePartitioner \<Rightarrow> SpacePartitioner" where
  "classifyPlanes st =
     st\<lparr>parallelGroups := foldl (\<lambda>groups cp. classifyPlane cp groups) (parallelGroups st) (originalPlanes st)\<rparr>"


section \<open>Slab cells of the parallel groups\<close>

text \<open>
  \<^verbatim>\<open>std::sort\<close> with the comparison \<^verbatim>\<open>a.plane.d < b.plane.d\<close>, as an insertion sort.
  \<^verbatim>\<open>std::sort\<close> does not fix the order of planes with equal \<open>d\<close>; the model keeps
  their order in the group.
\<close>

fun insert_by_d :: "ContourPlane \<Rightarrow> ContourPlane list \<Rightarrow> ContourPlane list" where
  "insert_by_d p [] = [p]"
| "insert_by_d p (q # qs) =
     (if flt (plane_d (plane q)) (plane_d (plane p)) then q # insert_by_d p qs else p # q # qs)"

fun sort_by_d :: "ContourPlane list \<Rightarrow> ContourPlane list" where
  "sort_by_d [] = []"
| "sort_by_d (p # ps) = insert_by_d p (sort_by_d ps)"

definition slab_size :: cfloat where
  "slab_size = Fin 100"

text \<open>
  The position of vertex \<open>i\<close> of a slab, chosen by the three low bits of \<open>i\<close>
  (\<^verbatim>\<open>i & 1\<close>, \<^verbatim>\<open>i & 2\<close>, \<^verbatim>\<open>i & 4\<close> for \<open>i < 8\<close>).
\<close>

definition slabVertex :: "vec3 \<Rightarrow> vec3 \<Rightarrow> vec3 \<Rightarrow> Plane \<Rightarrow> Plane \<Rightarrow> nat \<Rightarrow> Vertex" where
  "slabVertex nrm tangent bitangent bottom top' i =
     (let pos = vec3_add
                  (vec3_add (vec3_scale (if odd i then tangent else vec3_neg tangent) slab_size)
                            (vec3_scale (if odd (i div 2) then bitangent else vec3_neg bitangent) slab_size))
                  (vec3_scale nrm (if odd (i div 4) then plane_d bottom else plane_d top'))
      in mkVertex (vec3_x pos) (vec3_y pos) (vec3_z pos))"

definition slabEdges :: "nat \<Rightarrow> Edge list" where
  "slabEdges i =
     [\<lparr>vertexIndex1 = i, vertexIndex2 = (i + 1) mod 4\<rparr>,
      \<lparr>vertexIndex1 = i + 4, vertexIndex2 = ((i + 1) mod 4) + 4\<rparr>,
      \<lparr>vertexIndex1 = i, vertexIndex2 = i + 4\<rparr>]"

definition slabCell :: "Plane \<Rightarrow> Plane \<Rightarrow> ConvexCell" where
  "slabCell bottom top' =
     (let nrm = plane_normal bottom;
          tangent = glm_cross nrm (Vec3 (Fin 0) (Fin 1) (Fin 0));
          bitangent = glm_cross nrm tangent
      in \<lparr>cellVertices = map (slabVertex nrm tangent bitangent bottom top') [0..<8],
          edges = concat (map slabEdges [0..<4]),
          boundaryPlanes = [bottom, top']\<rparr>)"

definition createSlabCell :: "Plane \<Rightarrow> Plane \<Rightarrow> SpacePartitioner \<Rightarrow> SpacePartitioner" where
  "createSlabCell bottom top' st = st\<lparr>cells := cells st @ [slabCell bottom top']\<rparr>"

text \<open>The body of the loop over the groups in \<^verbatim>\<open>computeParallelPlaneCells\<close>.\<close>

definition slabsOfGroup :: "PlaneGroup \<Rightarrow> SpacePartitioner \<Rightarrow> SpacePartitioner" where
  "slabsOfGroup grp st =
     (if length (planes grp) < 2 then st
      else let sortedPlanes = sort_by_d (planes grp)
           in foldl (\<lambda>s i. createSlabCell (plane (sortedPlanes ! i)) (plane (sortedPlanes ! (i + 1))) s)
                    st [0..<length sortedPlanes - 1])"

definition computeParallelPlaneCells :: "SpacePartitioner \<Rightarrow> SpacePartitioner" where
  "computeParallelPlaneCells st = foldl (\<lambda>s grp. slabsOfGroup grp s) st (parallelGroups st)"


section \<open>Triple intersections and the cell assembled from them\<close>

definition computePlaneIntersection :: "Plane \<Rightarrow> Plane \<Rightarrow> Plane \<Rightarrow> vec3" where
  "computePlaneIntersection p1 p2 p3 =
     (let A = Mat3 (plane_a p1) (plane_b p1) (plane_c p1)
                   (plane_a p2) (plane_b p2) (plane_c p2)
                   (plane_a p3) (plane_b p3) (plane_c p3);
          b = Vec3 (fneg (plane_d p1)) (fneg (plane_d p2)) (fneg (plane_d p3))
      in mat3_mul_vec (glm_inverse A) b)"

definition computeDistance :: "Plane \<Rightarrow> vec3 \<Rightarrow> cfloat" where
  "computeDistance pl point =
     fadd (fadd (fadd (fmul (plane_a pl) (vec3_x point)) (fmul (plane_b pl) (vec3_y point)))
                (fmul (plane_c pl) (vec3_z point)))
          (plane_d pl)"

text \<open>
  The body of the innermost loop of \<^verbatim>\<open>findIntersectionVertices\<close> for the triple
  \<open>(i, j, k)\<close>: the vertex it pushes, if any. Nothing in the \<^verbatim>\<open>try\<close> block throws
  (GLM divides by the determinant in floating point), so the \<^verbatim>\<open>catch\<close> branch
  and its diagnostic are never taken.
\<close>

definition isValid :: "ContourPlane list \<Rightarrow> vec3 \<Rightarrow> bool" where
  "isValid pls intersection =
     (\<not> list_ex (\<lambda>cp. fgt (computeDistance (plane cp) intersection) tolerance) pls)"

definition tripleVertex :: "ContourPlane list \<Rightarrow> nat \<Rightarrow> nat \<Rightarrow> nat \<Rightarrow> Vertex list" where
  "tripleVertex pls i j k =
     (if arePlanesParallel (plane (pls ! i)) (plane (pls ! j)) \<or>
         arePlanesParallel (plane (pls ! j)) (plane (pls ! k)) \<or>
         arePlanesParallel (plane (pls ! i)) (plane (pls ! k))
      then []
      else let intersection = computePlaneIntersection (plane (pls ! i)) (plane (pls ! j)) (plane (pls ! k))
           in if isValid pls intersection
              then [(mkVertex (vec3_x intersection) (vec3_y intersection) (vec3_z intersection))
                      \<lparr>associatedPlanes := [i, j, k]\<rparr>]
              else [])"

text \<open>
  The three nested loops. The bounds \<^verbatim>\<open>size() - 2\<close> and \<^verbatim>\<open>size() - 1\<close> are
  unsigned; for fewer than two planes they wrap around, the loops then spin
  without reaching the body, and the list stays empty as it does here.
\<close>

definition intersectionVertices :: "ContourPlane list \<Rightarrow> Vertex list" where
  "intersectionVertices pls =
     concat (map (\<lambda>i.
       concat (map (\<lambda>j.
         concat (map (\<lambda>k. tripleVertex pls i j k) [j + 1..<length pls]))
         [i + 1..<length pls - 1]))
       [0..<length pls - 2])"

text \<open>\<^verbatim>\<open>std::set_intersection\<close> of two sorted ranges.\<close>

fun set_intersection :: "nat list \<Rightarrow> nat list \<Rightarrow> nat list" where
  "set_intersection [] ys = []"
| "set_intersection (x # xs) [] = []"
| "set_intersection (x # xs) (y # ys) =
     (if x < y then set_intersection xs (y # ys)
      else if y < x then set_intersection (x # xs) ys
      else x # set_intersection xs ys)"

definition cellEdges :: "Vertex list \<Rightarrow> Edge list" where
  "cellEdges vs =
     concat (map (\<lambda>i.
       concat (map (\<lambda>j.
         if length (set_intersection (associatedPlanes (vs ! i)) (associatedPlanes (vs ! j))) \<ge> 2
         then [\<lparr>vertexIndex1 = i, vertexIndex2 = j\<rparr>] else [])
         [i + 1..<length vs]))
       [0..<length vs])"

definition createCellFromIntersection :: "Vertex list \<Rightarrow> Plane list \<Rightarrow> SpacePartitioner \<Rightarrow> SpacePartitioner" where
  "createCellFromIntersection vs bps st =
     st\<lparr>cells := cells st @ [\<lparr>cellVertices = vs, edges = cellEdges vs, boundaryPlanes = bps\<rparr>]\<rparr>"

definition findIntersectionVertices :: "ContourPlane list \<Rightarrow> SpacePartitioner \<Rightarrow> SpacePartitioner" where
  "findIntersectionVertices pls st =
     (let ivs = intersectionVertices pls
      in if ivs \<noteq> [] then createCellFromIntersection ivs (map plane pls) st else st)"

definition isNonParallel :: "PlaneGroup list \<Rightarrow> ContourPlane \<Rightarrow> bool" where
  "isNonParallel groups cp =
     (\<not> list_ex (\<lambda>grp. arePlanesParallel (plane cp) (plane (planes grp ! 0))) groups)"

definition computeNonParallelPlaneCells :: "SpacePartitioner \<Rightarrow> SpacePartitioner" where
  "computeNonParallelPlaneCells st =
     (let st1 = st\<lparr>nonParallelPlanes :=
                    nonParallelPlanes st @ filter (isNonParallel (parallelGroups st)) (originalPlanes st)\<rparr>
      in if length (nonParallelPlanes st1) < 3 then st1
         else findIntersectionVertices (nonParallelPlanes st1) st1)"

text \<open>\<^verbatim>\<open>computeCells\<close> returns the cell list and leaves the partitioner changed.\<close>

definition computeCells :: "SpacePartitioner \<Rightarrow> ConvexCell list \<times> SpacePartitioner" where
  "computeCells st =
     (let st' = computeNonParallelPlaneCells (computeParallelPlaneCells st) in (cells st', st'))"


section \<open>Bounding box and closure planes\<close>

definition growBox :: "BoundingBox \<Rightarrow> Vertex \<Rightarrow> BoundingBox" where
  "growBox bbox v =
     \<lparr>bbox_min = Vec3 (std_min (vec3_x (bbox_min bbox)) (vertex_x v))
                      (std_min (vec3_y (bbox_min bbox)) (vertex_y v))
                      (std_min (vec3_z (bbox_min bbox)) (vertex_z v)),
      bbox_max = Vec3 (std_max (vec3_x (bbox_max bbox)) (vertex_x v))
                      (std_max (vec3_y (bbox_max bbox)) (vertex_y v))
                      (std_max (vec3_z (bbox_max bbox)) (vertex_z v))\<rparr>"

definition computeTightBoundingBox :: "SpacePartitioner \<Rightarrow> BoundingBox" where
  "computeTightBoundingBox st =
     (let bbox0 = \<lparr>bbox_min = vec3_splat FLT_MAX, bbox_max = vec3_splat (fneg FLT_MAX)\<rparr>;
          bbox = foldl (\<lambda>b contourPlane. foldl growBox b (vertices contourPlane)) bbox0 (originalPlanes st);
          center = vec3_scale (vec3_add (bbox_max bbox) (bbox_min bbox)) (Fin (1 / 2));
          extent = vec3_sub (bbox_max bbox) center
      in \<lparr>bbox_min = vec3_sub center (vec3_scale extent (Fin 2)),
          bbox_max = vec3_add center (vec3_scale extent (Fin 2))\<rparr>)"

text \<open>The six plane equations, in the order the source assigns \<^verbatim>\<open>boxPlanes[0..5]\<close>.\<close>

definition boxPlaneEquations :: "BoundingBox \<Rightarrow> Plane list" where
  "boxPlaneEquations bbox =
     [mkPlane (Fin 1) (Fin 0) (Fin 0) (fneg (vec3_x (bbox_min bbox))),
      mkPlane (Fin (- 1)) (Fin 0) (Fin 0) (vec3_x (bbox_max bbox)),
      mkPlane (Fin 0) (Fin 1) (Fin 0) (fneg (vec3_y (bbox_min bbox))),
      mkPlane (Fin 0) (Fin (- 1)) (Fin 0) (vec3_y (bbox_max bbox)),
      mkPlane (Fin 0) (Fin 0) (Fin 1) (fneg (vec3_z (bbox_min bbox))),
      mkPlane (Fin 0) (Fin 0) (Fin (- 1)) (vec3_z (bbox_max bbox))]"

definition boxPlaneVertices :: "BoundingBox \<Rightarrow> nat \<Rightarrow> Vertex list" where
  "boxPlaneVertices bbox i =
     (let mn = bbox_min bbox; mx = bbox_max bbox
      in if i < 2 then
           (let x = (if i = 0 then vec3_x mn else vec3_x mx)
            in [mkVertex x (vec3_y mn) (vec3_z mn), mkVertex x (vec3_y mx) (vec3_z mn),
                mkVertex x (vec3_y mx) (vec3_z mx), mkVertex x (vec3_y mn) (vec3_z mx)])
         else if i < 4 then
           (let y = (if i = 2 then vec3_y mn else vec3_y mx)
            in [mkVertex (vec3_x mn) y (vec3_z mn), mkVertex (vec3_x mx) y (vec3_z mn),
                mkVertex (vec3_x mx) y (vec3_z mx), mkVertex (vec3_x mn) y (vec3_z mx)])
         else
           (let z = (if i = 4 then vec3_z mn else vec3_z mx)
            in [mkVertex (vec3_x mn) (vec3_y mn) z, mkVertex (vec3_x mx) (vec3_y mn) z,
                mkVertex (vec3_x mx) (vec3_y mx) z, mkVertex (vec3_x mn) (vec3_y mx) z]))"

definition boxPlanes :: "BoundingBox \<Rightarrow> ContourPlane list" where
  "boxPlanes bbox =
     map (\<lambda>i. \<lparr>plane = boxPlaneEquations bbox ! i, vertices = boxPlaneVertices bbox i, numVertices = 4\<rparr>)
         [0..<6]"

definition addBoundingBoxPlanes :: "BoundingBox \<Rightarrow> SpacePartitioner \<Rightarrow> SpacePartitioner" where
  "addBoundingBoxPlanes bbox st = st\<lparr>originalPlanes := originalPlanes st @ boxPlanes bbox\<rparr>"

text \<open>The constructor \<^verbatim>\<open>SpacePartitioner(contourPlanes)\<close>.\<close>

definition newSpacePartitioner :: "ContourPlane list \<Rightarrow> SpacePartitioner" where
  "newSpacePartitioner contourPlanes =
     (let st = \<lparr>originalPlanes = contourPlanes, parallelGroups = [], nonParallelPlanes = [], cells = []\<rparr>;
          bbox = computeTightBoundingBox st
      in classifyPlanes (addBoundingBoxPlanes bbox st))"


section \<open>Notions used to state the properties\<close>

text \<open>Negating all four coefficients of a plane.\<close>

definition negatePlane :: "Plane \<Rightarrow> Plane" where
  "negatePlane p = mkPlane (fneg (plane_a p)) (fneg (plane_b p)) (fneg (plane_c p)) (fneg (plane_d p))"

text \<open>A plane whose normal is a vector of finite numbers, not all of them zero.\<close>

definition nonzero_normal :: "Plane \<Rightarrow> bool" where
  "nonzero_normal p =
     (is_finite (plane_a p) \<and> is_finite (plane_b p) \<and> is_finite (plane_c p) \<and>
      (plane_a p \<noteq> Fin 0 \<or> plane_b p \<noteq> Fin 0 \<or> plane_c p \<noteq> Fin 0))"

definition nonzero_normals :: "ContourPlane list \<Rightarrow> bool" where
  "nonzero_normals pls = list_all (\<lambda>cp. nonzero_normal (plane cp)) pls"

text \<open>
  A plane whose normal, normalised in float arithmetic, has three finite components.
  This is what makes a plane parallel to itself under \<^verbatim>\<open>arePlanesParallel\<close>.
\<close>

definition finite_unit_normal :: "Plane \<Rightarrow> bool" where
  "finite_unit_normal p =
     (let n = glm_normalize (plane_normal p)
      in is_finite (vec3_x n) \<and> is_finite (vec3_y n) \<and> is_finite (vec3_z n))"

text \<open>A plane is covered when it is parallel to the first member of some group.\<close>

definition covered :: "PlaneGroup list \<Rightarrow> ContourPlane \<Rightarrow> bool" where
  "covered groups cp = list_ex (\<lambda>grp. arePlanesParallel (plane cp) (plane (planes grp ! 0))) groups"

definition firsts :: "PlaneGroup list \<Rightarrow> Plane list" where
  "firsts groups = map (\<lambda>grp. plane (planes grp ! 0)) groups"

definition nonempty_groups :: "PlaneGroup list \<Rightarrow> bool" where
  "nonempty_groups groups = list_all (\<lambda>grp. planes grp \<noteq> []) groups"

text \<open>The slab cells of one group: one per consecutive pair of its planes sorted by \<open>d\<close>.\<close>

definition groupSlabs :: "PlaneGroup \<Rightarrow> ConvexCell list" where
  "groupSlabs grp =
     map (\<lambda>i. slabCell (plane (sort_by_d (planes grp) ! i)) (plane (sort_by_d (planes grp) ! (i + 1))))
         [0..<length (planes grp) - 1]"

text \<open>Ascending order of the offsets \<open>d\<close>, with \<^verbatim>\<open>>=\<close> of the floats.\<close>

definition d_of :: "ContourPlane \<Rightarrow> cfloat" where
  "d_of p = plane_d (plane p)"

definition ascending_d :: "ContourPlane list \<Rightarrow> bool" where
  "ascending_d ps = sorted_wrt (\<lambda>p q. fge (d_of q) (d_of p)) ps"

text \<open>The position of a vertex, and the partitioner the constructor starts from.\<close>

definition vertexPos :: "Vertex \<Rightarrow> vec3" where
  "vertexPos v = Vec3 (vertex_x v) (vertex_y v) (vertex_z v)"

definition emptyPartitioner :: "ContourPlane list \<Rightarrow> SpacePartitioner" where
  "emptyPartitioner contourPlanes =
     \<lparr>originalPlanes = contourPlanes, parallelGroups = [], nonParallelPlanes = [], cells = []\<rparr>"

text \<open>
  For the closure planes: a point strictly inside a box, a finite binary32 number, a
  vector and a box of such numbers.
\<close>

definition strictlyInside :: "BoundingBox \<Rightarrow> vec3 \<Rightarrow> bool" where
  "strictlyInside bbox pt =
     (flt (vec3_x (bbox_min bbox)) (vec3_x pt) \<and> flt (vec3_x pt) (vec3_x (bbox_max bbox)) \<and>
      flt (vec3_y (bbox_min bbox)) (vec3_y pt) \<and> flt (vec3_y pt) (vec3_y (bbox_max bbox)) \<and>
      flt (vec3_z (bbox_min bbox)) (vec3_z pt) \<and> flt (vec3_z pt) (vec3_z (bbox_max bbox)))"

definition finite_float :: "cfloat \<Rightarrow> bool" where
  "finite_float x = (is_finite x \<and> is_float x)"

definition finite_vec3 :: "vec3 \<Rightarrow> bool" where
  "finite_vec3 v = (finite_float (vec3_x v) \<and> finite_float (vec3_y v) \<and> finite_float (vec3_z v))"

definition finiteBox :: "BoundingBox \<Rightarrow> bool" where
  "finiteBox bbox = (finite_vec3 (bbox_min bbox) \<and> finite_vec3 (bbox_max bbox))"

text \<open>
  The test the solver applies to a candidate point and a plane: the signed distance
  does not exceed the tolerance (\<^verbatim>\<open>!(computeDistance(plane, p) > 0.0001f)\<close>).
\<close>

definition passesFilter :: "Plane \<Rightarrow> Vertex \<Rightarrow> bool" where
  "passesFilter p v = (\<not> fgt (computeDistance p (vertexPos v)) tolerance)"

text \<open>
  The plane equation satisfied within the tolerance, as the specification words it:
  \<open>|a x + b y + c z + d| \<le> 0.0001\<close>.
\<close>

definition satisfiesPlaneEquation :: "Plane \<Rightarrow> Vertex \<Rightarrow> bool" where
  "satisfiesPlaneEquation p v = fge tolerance (fabs (computeDistance p (vertexPos v)))"

text \<open>The cell \<^verbatim>\<open>createCellFromIntersection\<close> appends for the planes given to the solver.\<close>

definition assembledCell :: "ContourPlane list \<Rightarrow> ConvexCell" where
  "assembledCell pls =
     \<lparr>cellVertices = intersectionVertices pls, edges = cellEdges (intersectionVertices pls),
      boundaryPlanes = map plane pls\<rparr>"


section \<open>Example inputs\<close>

text \<open>A contour plane with no polygon, for the planes handed to the solver directly.\<close>

definition solverInput :: "Plane list \<Rightarrow> ContourPlane list" where
  "solverInput ps = map (\<lambda>p. \<lparr>plane = p, vertices = [], numVertices = 0\<rparr>) ps"

text \<open>
  One input plane \<open>3x + 4y = 0\<close> with a rectangle on it as polygon; the constructor
  computes the box \<open>[-4, 12] \<times> [-9, 3] \<times> [-1, 3]\<close> and four groups for it.
\<close>

definition slantedInput :: "ContourPlane list" where
  "slantedInput =
     [\<lparr>plane = mkPlane (Fin 3) (Fin 4) (Fin 0) (Fin 0),
       vertices = [mkVertex (Fin 0) (Fin 0) (Fin 0), mkVertex (Fin 8) (Fin (- 6)) (Fin 0),
                   mkVertex (Fin 8) (Fin (- 6)) (Fin 2), mkVertex (Fin 0) (Fin 0) (Fin 2)],
       numVertices = 4\<rparr>]"

definition slantedBox :: BoundingBox where
  "slantedBox = \<lparr>bbox_min = Vec3 (Fin (- 4)) (Fin (- 9)) (Fin (- 1)), bbox_max = Vec3 (Fin 12) (Fin 3) (Fin 3)\<rparr>"

definition slantedGroups :: "PlaneGroup list" where
  "slantedGroups =
     [\<lparr>normal = Vec3 (Fin 3) (Fin 4) (Fin 0), planes = slantedInput\<rparr>,
      \<lparr>normal = Vec3 (Fin 1) (Fin 0) (Fin 0), planes = [boxPlanes slantedBox ! 0, boxPlanes slantedBox ! 1]\<rparr>,
      \<lparr>normal = Vec3 (Fin 0) (Fin 1) (Fin 0), planes = [boxPlanes slantedBox ! 2, boxPlanes slantedBox ! 3]\<rparr>,
      \<lparr>normal = Vec3 (Fin 0) (Fin 0) (Fin 1), planes = [boxPlanes slantedBox ! 4, boxPlanes slantedBox ! 5]\<rparr>]"

definition slantedCells :: "ConvexCell list" where
  "slantedCells =
     [slabCell (mkPlane (Fin 1) (Fin 0) (Fin 0) (Fin 4)) (mkPlane (Fin (- 1)) (Fin 0) (Fin 0) (Fin 12)),
      slabCell (mkPlane (Fin 0) (Fin (- 1)) (Fin 0) (Fin 3)) (mkPlane (Fin 0) (Fin 1) (Fin 0) (Fin 9)),
      slabCell (mkPlane (Fin 0) (Fin 0) (Fin 1) (Fin 1)) (mkPlane (Fin 0) (Fin 0) (Fin (- 1)) (Fin 3))]"

text \<open>The planes that belong to a group of one member: the specification's non-parallel set.\<close>

definition singletonGroupPlanes :: "SpacePartitioner \<Rightarrow> ContourPlane list" where
  "singletonGroupPlanes st =
     concat (map planes (filter (\<lambda>grp. length (planes grp) = 1) (parallelGroups st)))"

text \<open>The box \<open>[-1, 1]\<^sup>3\<close>; its closure planes are \<open>boxPlanes unitBox\<close>.\<close>

definition unitBox :: BoundingBox where
  "unitBox = \<lparr>bbox_min = Vec3 (Fin (- 1)) (Fin (- 1)) (Fin (- 1)), bbox_max = Vec3 (Fin 1) (Fin 1) (Fin 1)\<rparr>"


text \<open>Three planes that all contain the z-axis: \<open>x = 0\<close>, \<open>y = 0\<close> and \<open>3x + 4y = 0\<close>.\<close>

definition zaxisPlanes :: "ContourPlane list" where
  "zaxisPlanes = solverInput
     [mkPlane (Fin 1) (Fin 0) (Fin 0) (Fin 0),
      mkPlane (Fin 0) (Fin 1) (Fin 0) (Fin 0),
      mkPlane (Fin 3) (Fin 4) (Fin 0) (Fin 0)]"

definition nanVertex :: Vertex where
  "nanVertex = \<lparr>vertex_x = NaN, vertex_y = NaN, vertex_z = NaN, associatedPlanes = [0, 1, 2]\<rparr>"

text \<open>Three input planes whose normal is the zero vector, each with a triangle as polygon.\<close>

definition zeroNormalPlane :: ContourPlane where
  "zeroNormalPlane =
     \<lparr>plane = mkPlane (Fin 0) (Fin 0) (Fin 0) (Fin 1),
      vertices = [mkVertex (Fin 0) (Fin 0) (Fin 0), mkVertex (Fin 2) (Fin 0) (Fin 0), mkVertex (Fin 2) (Fin 2) (Fin 2)],
      numVertices = 3\<rparr>"

definition zeroNormalInput :: "ContourPlane list" where
  "zeroNormalInput = [zeroNormalPlane, zeroNormalPlane, zeroNormalPlane]"

definition zeroNormalBox :: BoundingBox where
  "zeroNormalBox = \<lparr>bbox_min = Vec3 (Fin (- 1)) (Fin (- 1)) (Fin (- 1)), bbox_max = Vec3 (Fin 3) (Fin 3) (Fin 3)\<rparr>"

definition zeroNormalGroups :: "PlaneGroup list" where
  "zeroNormalGroups =
     [\<lparr>normal = Vec3 (Fin 0) (Fin 0) (Fin 0), planes = [zeroNormalPlane]\<rparr>,
      \<lparr>normal = Vec3 (Fin 0) (Fin 0) (Fin 0), planes = [zeroNormalPlane]\<rparr>,
      \<lparr>normal = Vec3 (Fin 0) (Fin 0) (Fin 0), planes = [zeroNormalPlane]\<rparr>,
      \<lparr>normal = Vec3 (Fin 1) (Fin 0) (Fin 0), planes = [boxPlanes zeroNormalBox ! 0, boxPlanes zeroNormalBox ! 1]\<rparr>,
      \<lparr>normal = Vec3 (Fin 0) (Fin 1) (Fin 0), planes = [boxPlanes zeroNormalBox ! 2, boxPlanes zeroNormalBox ! 3]\<rparr>,
      \<lparr>normal = Vec3 (Fin 0) (Fin 0) (Fin 1), planes = [boxPlanes zeroNormalBox ! 4, boxPlanes zeroNormalBox ! 5]\<rparr>]"

text \<open>
  Three input planes with the normal \<open>(2\<^sup>-\<^sup>1\<^sup>0\<^sup>0, 0, 0)\<close>, a binary32 number whose square
  is below the smallest positive binary32 number, each with the same triangle as polygon.
\<close>

definition tinyPlane :: ContourPlane where
  "tinyPlane =
     \<lparr>plane = mkPlane (Fin (1 / 2 ^ 100)) (Fin 0) (Fin 0) (Fin 1),
      vertices = [mkVertex (Fin 0) (Fin 0) (Fin 0), mkVertex (Fin 2) (Fin 0) (Fin 0), mkVertex (Fin 2) (Fin 2) (Fin 2)],
      numVertices = 3\<rparr>"

definition tinyInput :: "ContourPlane list" where
  "tinyInput = [tinyPlane, tinyPlane, tinyPlane]"

definition tinyGroups :: "PlaneGroup list" where
  "tinyGroups =
     [\<lparr>normal = Vec3 (Fin (1 / 2 ^ 100)) (Fin 0) (Fin 0), planes = [tinyPlane]\<rparr>,
      \<lparr>normal = Vec3 (Fin (1 / 2 ^ 100)) (Fin 0) (Fin 0), planes = [tinyPlane]\<rparr>,
      \<lparr>normal = Vec3 (Fin (1 / 2 ^ 100)) (Fin 0) (Fin 0), planes = [tinyPlane]\<rparr>,
      \<lparr>normal = Vec3 (Fin 1) (Fin 0) (Fin 0), planes = [boxPlanes zeroNormalBox ! 0, boxPlanes zeroNormalBox ! 1]\<rparr>,
      \<lparr>normal = Vec3 (Fin 0) (Fin 1) (Fin 0), planes = [boxPlanes zeroNormalBox ! 2, boxPlanes zeroNormalBox ! 3]\<rparr>,
      \<lparr>normal = Vec3 (Fin 0) (Fin 0) (Fin 1), planes = [boxPlanes zeroNormalBox ! 4, boxPlanes zeroNormalBox ! 5]\<rparr>]"

text \<open>A group of three planes \<open>z = -5\<close>, \<open>z = -1\<close>, \<open>z = -3\<close>, in this order.\<close>

definition threePlaneGroup :: PlaneGroup where
  "threePlaneGroup =
     \<lparr>normal = Vec3 (Fin 0) (Fin 0) (Fin 1),
      planes = solverInput [mkPlane (Fin 0) (Fin 0) (Fin 1) (Fin 5), mkPlane (Fin 0) (Fin 0) (Fin 1) (Fin 1),
                            mkPlane (Fin 0) (Fin 0) (Fin 1) (Fin 3)]\<rparr>"





text \<open>The groups into which the six closure planes of \<open>unitBox\<close> are classified.\<close>

definition closureGroups :: "PlaneGroup list" where
  "closureGroups =
     [\<lparr>normal = Vec3 (Fin 1) (Fin 0) (Fin 0), planes = [boxPlanes unitBox ! 0, boxPlanes unitBox ! 1]\<rparr>,
      \<lparr>normal = Vec3 (Fin 0) (Fin 1) (Fin 0), planes = [boxPlanes unitBox ! 2, boxPlanes unitBox ! 3]\<rparr>,
      \<lparr>normal = Vec3 (Fin 0) (Fin 0) (Fin 1), planes = [boxPlanes unitBox ! 4, boxPlanes unitBox ! 5]\<rparr>]"


section \<open>Properties\<close>

subsection \<open>The parallelism test\<close>

lemmas rnd_eval = rnd_def level_def level_step_def round_half_even_def signed_inf_def Let_def

lemma rnd_0: "rnd 0 = Fin 0"
  by (simp add: rnd_eval)

lemma rnd_1: "rnd 1 = Fin 1"
  by (simp add: rnd_eval)

lemma level_step_lower:
  "L = 0 \<or> 2 ^ (L + 23) \<le> s \<Longrightarrow> level_step j s L = 0 \<or> 2 ^ (level_step j s L + 23) \<le> s"
  by (auto simp: level_step_def)

lemma level_lower: "level s = 0 \<or> 2 ^ (level s + 23) \<le> s"
  unfolding level_def by (intro level_step_lower) simp

lemma round_half_even_of_int: "round_half_even (of_int n) = n"
  by (simp add: round_half_even_def)

lemma rnd_of_int:
  assumes "\<bar>i\<bar> < 2 ^ 24"
  shows "rnd (of_int i) = Fin (of_int i)"
proof -
  define s :: real where "s = \<bar>of_int i\<bar> * 2 ^ 149"
  define L where "L = level s"
  have s_int: "s = of_int (\<bar>i\<bar> * 2 ^ 149)" by (simp add: s_def)
  have "of_int \<bar>i\<bar> < (2::real) ^ 24" using assms by (metis of_int_less_numeral_power_cancel_iff)
  then have "\<bar>real_of_int i\<bar> * 2 ^ 149 < 2 ^ 24 * 2 ^ 149"
    by (intro mult_strict_right_mono) simp_all
  also have "(2::real) ^ 24 * 2 ^ 149 = 2 ^ 173" by (simp flip: power_add)
  finally have s_lt: "s < 2 ^ 173" by (simp only: s_def)
  have L149: "L \<le> 149"
  proof (rule ccontr)
    assume "\<not> L \<le> 149"
    then have L: "150 \<le> L" by simp
    with level_lower [of s] have "(2::real) ^ (L + 23) \<le> s" by (simp add: L_def)
    moreover have "(2::real) ^ 173 \<le> 2 ^ (L + 23)"
      using L by (intro power_increasing) simp_all
    ultimately show False using s_lt by linarith
  qed
  have pw: "(2::real) ^ 149 = 2 ^ (149 - L) * 2 ^ L"
    using L149 by (simp flip: power_add)
  have q: "s / 2 ^ L = of_int (\<bar>i\<bar> * 2 ^ (149 - L))"
    unfolding s_def pw by simp
  have k: "round_half_even (s / 2 ^ L) = \<bar>i\<bar> * 2 ^ (149 - L)"
    unfolding q by (rule round_half_even_of_int)
  have bk: "real_of_int (\<bar>i\<bar> * 2 ^ (149 - L)) * 2 ^ L = s"
    using q by (simp add: field_simps)
  have "(2::real) ^ 173 \<le> 2 ^ 277" by (intro power_increasing) simp_all
  with s_lt have no1: "\<not> 2 ^ 277 \<le> s" by linarith
  show ?thesis
    unfolding rnd_def Let_def s_def [symmetric] L_def [symmetric] k bk
    using no1 by (simp add: s_def sgn_if del: power_numeral)
qed

lemma rnd_numeral: "(numeral n :: int) < 16777216 \<Longrightarrow> rnd (numeral n) = Fin (numeral n)"
  using rnd_of_int [of "numeral n"] by simp

lemma rnd_neg_numeral: "(numeral n :: int) < 16777216 \<Longrightarrow> rnd (- numeral n) = Fin (- numeral n)"
  using rnd_of_int [of "- numeral n"] by simp

lemma rnd_minus_1: "rnd (- 1) = Fin (- 1)"
  using rnd_of_int [of "- 1"] by simp

lemmas rnd_ints = rnd_0 rnd_1 rnd_minus_1 rnd_numeral rnd_neg_numeral

lemma tolerance_value: "tolerance = Fin (13743895 / 137438953472)"
  by (simp add: tolerance_def rnd_eval)

lemma signed_inf_minus: "signed_inf (- r) = fneg (signed_inf r)"
  by (simp add: signed_inf_def)

lemma rnd_minus: "rnd (- x) = fneg (rnd x)"
  by (simp add: rnd_def Let_def signed_inf_minus sgn_minus)

lemma fabs_fneg: "fabs (fneg x) = fabs x"
  by (cases x) simp_all

lemma fneg_fneg: "fneg (fneg x) = x"
  by (cases x) simp_all

lemma fmul_fneg_left: "fmul (fneg x) y = fneg (fmul x y)"
  by (cases x; cases y) (simp_all add: signed_inf_minus fneg_fneg rnd_minus)

lemma fmul_fneg_fneg: "fmul (fneg x) (fneg y) = fmul x y"
  by (cases x; cases y) (simp_all add: signed_inf_minus fneg_fneg)

lemma fsub_swap: "fsub y x = fneg (fsub x y)"
proof (cases x; cases y)
  fix r s assume "x = Fin r" "y = Fin s"
  moreover have "rnd (s + - r) = fneg (rnd (r + - s))"
    using rnd_minus [of "r + - s"] by simp
  ultimately show ?thesis by (simp add: fsub_def)
qed (simp_all add: fsub_def)

lemma glm_dot_neg: "glm_dot (vec3_neg v) (vec3_neg v) = glm_dot v v"
  by (simp add: glm_dot_def vec3_neg_def Vec3_def fmul_fneg_fneg)

lemma glm_normalize_neg: "glm_normalize (vec3_neg v) = vec3_neg (glm_normalize v)"
  unfolding glm_normalize_def glm_dot_neg
  by (simp add: vec3_scale_def vec3_neg_def Vec3_def fmul_fneg_left)

lemma glm_abs_neg: "glm_abs (vec3_neg v) = glm_abs v"
  by (simp add: glm_abs_def vec3_neg_def Vec3_def fabs_fneg)

lemma plane_normal_negatePlane: "plane_normal (negatePlane p) = vec3_neg (plane_normal p)"
  by (simp add: plane_normal_def negatePlane_def mkPlane_def vec3_neg_def Vec3_def)

lemma glm_all_epsilonEqual_sym: "glm_all_epsilonEqual v w eps = glm_all_epsilonEqual w v eps"
  unfolding glm_all_epsilonEqual_def
  by (simp add: fsub_swap [of "vec3_x v" "vec3_x w"] fsub_swap [of "vec3_y v" "vec3_y w"]
      fsub_swap [of "vec3_z v" "vec3_z w"] fabs_fneg)

text \<open>
  Claim C8: \<^verbatim>\<open>arePlanesParallel\<close> is symmetric, and negating all four coefficients of a
  plane changes its classification against no other plane, on either side of the test.
  This holds for every value of the coefficients, the infinities and \<open>NaN\<close> included.
\<close>

theorem arePlanesParallel_symmetric_sign_invariant:
  "arePlanesParallel p q = arePlanesParallel q p \<and>
   arePlanesParallel (negatePlane p) q = arePlanesParallel p q \<and>
   arePlanesParallel q (negatePlane p) = arePlanesParallel q p"
proof -
  have sym: "arePlanesParallel p q = arePlanesParallel q p" for p q
    unfolding arePlanesParallel_def Let_def by (rule glm_all_epsilonEqual_sym)
  have neg: "arePlanesParallel (negatePlane p) q = arePlanesParallel p q"
    unfolding arePlanesParallel_def Let_def
    by (simp add: plane_normal_negatePlane glm_normalize_neg glm_abs_neg)
  from sym [of p q] neg sym [of q "negatePlane p"] sym [of q p] show ?thesis by simp
qed


subsection \<open>Classification covers every plane\<close>

lemma is_finite_iff: "is_finite x \<longleftrightarrow> (\<exists>r. x = Fin r)"
  by (cases x) (simp_all add: is_finite_def)

lemma self_close: "flt (fabs (fsub (fabs x) (fabs x))) tolerance \<longleftrightarrow> is_finite x"
  by (cases x) (simp_all add: fsub_def rnd_0 tolerance_value is_finite_def)

lemma arePlanesParallel_self_iff: "arePlanesParallel p p \<longleftrightarrow> finite_unit_normal p"
  by (simp add: arePlanesParallel_def finite_unit_normal_def Let_def glm_all_epsilonEqual_def
      glm_abs_def Vec3_def self_close)

lemma arePlanesParallel_refl: "finite_unit_normal p \<Longrightarrow> arePlanesParallel p p"
  by (simp add: arePlanesParallel_self_iff)

lemma covered_firsts: "covered groups cp = list_ex (arePlanesParallel (plane cp)) (firsts groups)"
  by (induction groups) (simp_all add: covered_def firsts_def)

lemma joinGroup_None_iff: "joinGroup cp groups = None \<longleftrightarrow> \<not> covered groups cp"
  by (induction groups) (simp_all add: covered_def)

lemma joinGroup_Some_firsts:
  "joinGroup cp groups = Some groups' \<Longrightarrow> nonempty_groups groups \<Longrightarrow>
   firsts groups' = firsts groups \<and> nonempty_groups groups'"
proof (induction groups arbitrary: groups')
  case Nil
  then show ?case by simp
next
  case (Cons g gs)
  show ?case
  proof (cases "arePlanesParallel (plane cp) (plane (planes g ! 0))")
    case True
    with Cons.prems show ?thesis
      by (auto simp: firsts_def nonempty_groups_def nth_append)
  next
    case False
    with Cons.prems obtain gs' where gs': "joinGroup cp gs = Some gs'" "groups' = g # gs'"
      by auto
    with Cons.IH [OF gs'(1)] Cons.prems(2) show ?thesis
      by (simp add: firsts_def nonempty_groups_def)
  qed
qed

lemma classifyPlane_firsts:
  assumes "nonempty_groups groups"
  shows "firsts (classifyPlane cp groups) =
           (if covered groups cp then firsts groups else firsts groups @ [plane cp]) \<and>
         nonempty_groups (classifyPlane cp groups)"
proof (cases "joinGroup cp groups")
  case None
  then have "\<not> covered groups cp" by (simp add: joinGroup_None_iff)
  with None assms show ?thesis
    by (simp add: classifyPlane_def firsts_def nonempty_groups_def)
next
  case (Some groups')
  then have "covered groups cp" using joinGroup_None_iff [of cp groups] by simp
  with Some joinGroup_Some_firsts [OF Some assms] show ?thesis
    by (simp add: classifyPlane_def)
qed

lemma classify_fold:
  assumes "nonempty_groups groups"
    and "\<forall>cp \<in> set cps. arePlanesParallel (plane cp) (plane cp)"
  shows "nonempty_groups (foldl (\<lambda>gs cp. classifyPlane cp gs) groups cps) \<and>
         (\<forall>q. covered groups q \<longrightarrow> covered (foldl (\<lambda>gs cp. classifyPlane cp gs) groups cps) q) \<and>
         (\<forall>cp \<in> set cps. covered (foldl (\<lambda>gs cp. classifyPlane cp gs) groups cps) cp)"
  using assms
proof (induction cps arbitrary: groups)
  case Nil
  then show ?case by simp
next
  case (Cons c cs)
  let ?g1 = "classifyPlane c groups"
  from classifyPlane_firsts [OF Cons.prems(1), of c]
  have f1: "firsts ?g1 = (if covered groups c then firsts groups else firsts groups @ [plane c])"
    and ne1: "nonempty_groups ?g1" by simp_all
  have refl: "arePlanesParallel (plane c) (plane c)" using Cons.prems(2) by simp
  have c1: "covered ?g1 c"
    using f1 refl by (auto simp: covered_firsts)
  have mono1: "covered groups q \<Longrightarrow> covered ?g1 q" for q
    using f1 by (auto simp: covered_firsts)
  from Cons.IH [OF ne1] Cons.prems(2)
  have ih: "nonempty_groups (foldl (\<lambda>gs cp. classifyPlane cp gs) ?g1 cs)"
    "\<And>q. covered ?g1 q \<Longrightarrow> covered (foldl (\<lambda>gs cp. classifyPlane cp gs) ?g1 cs) q"
    "\<And>cp. cp \<in> set cs \<Longrightarrow> covered (foldl (\<lambda>gs cp. classifyPlane cp gs) ?g1 cs) cp"
    by simp_all
  show ?case using ih c1 mono1 by auto
qed

lemma upt_6: "[0..<6] = [0, 1, 2, 3, 4, 5]"
  by (simp add: upt_rec)

lemma boxPlanes_finite_unit_normal: "\<forall>cp \<in> set (boxPlanes bbox). finite_unit_normal (plane cp)"
  by (simp add: boxPlanes_def upt_6 boxPlaneEquations_def mkPlane_def finite_unit_normal_def
      plane_normal_def glm_normalize_def glm_dot_def glm_inversesqrt_def vec3_scale_def Vec3_def
      rnd_0 rnd_1 is_finite_def Let_def)
     (simp add: rnd_eval)

lemma fold_createSlabCell:
  "foldl (\<lambda>s i. createSlabCell (f i) (g i) s) st is =
     st\<lparr>cells := cells st @ map (\<lambda>i. slabCell (f i) (g i)) is\<rparr>"
  by (induction "is" arbitrary: st) (simp_all add: createSlabCell_def)

lemma length_insert_by_d: "length (insert_by_d p ps) = Suc (length ps)"
  by (induction ps) simp_all

lemma length_sort_by_d: "length (sort_by_d ps) = length ps"
  by (induction ps) (simp_all add: length_insert_by_d)

lemma slabsOfGroup_eq: "slabsOfGroup grp st = st\<lparr>cells := cells st @ groupSlabs grp\<rparr>"
proof (cases "length (planes grp) < 2")
  case True
  then have "[0..<length (planes grp) - 1] = []" by simp
  with True show ?thesis by (simp add: slabsOfGroup_def groupSlabs_def)
next
  case False
  then show ?thesis
    by (simp add: slabsOfGroup_def groupSlabs_def Let_def fold_createSlabCell length_sort_by_d)
qed

lemma fold_slabsOfGroup:
  "foldl (\<lambda>s grp. slabsOfGroup grp s) st groups =
     st\<lparr>cells := cells st @ concat (map groupSlabs groups)\<rparr>"
  by (induction groups arbitrary: st) (simp_all add: slabsOfGroup_eq)

lemma computeParallelPlaneCells_eq:
  "computeParallelPlaneCells st = st\<lparr>cells := cells st @ concat (map groupSlabs (parallelGroups st))\<rparr>"
  by (simp add: computeParallelPlaneCells_def fold_slabsOfGroup)

lemma isNonParallel_covered: "isNonParallel groups cp = (\<not> covered groups cp)"
  by (simp add: isNonParallel_def covered_def)

lemma newSpacePartitioner_covered:
  assumes "\<forall>cp \<in> set contourPlanes. finite_unit_normal (plane cp)"
  shows "\<forall>cp \<in> set (originalPlanes (newSpacePartitioner contourPlanes)).
           covered (parallelGroups (newSpacePartitioner contourPlanes)) cp"
proof -
  let ?st0 = "\<lparr>originalPlanes = contourPlanes, parallelGroups = [], nonParallelPlanes = [], cells = []\<rparr>"
  let ?all = "contourPlanes @ boxPlanes (computeTightBoundingBox ?st0)"
  have "\<forall>cp \<in> set ?all. arePlanesParallel (plane cp) (plane cp)"
    using assms boxPlanes_finite_unit_normal by (auto intro: arePlanesParallel_refl)
  from classify_fold [of "[]" ?all, OF _ this]
  show ?thesis
    by (simp add: newSpacePartitioner_def Let_def classifyPlanes_def addBoundingBoxPlanes_def
        nonempty_groups_def)
qed

text \<open>
  Claim C1, as amended: when normalising the normal of every input plane in float
  arithmetic gives three finite numbers (for the six closure planes it always does),
  every plane is parallel to the first member of the group it was classified into, so
  \<^verbatim>\<open>computeNonParallelPlaneCells\<close> leaves the non-parallel set empty, the intersection
  phase adds no cell, and every cell that \<^verbatim>\<open>computeCells\<close> returns is a slab cell of
  the parallel phase. The hypothesis is exactly that every plane is parallel to itself
  (\<open>arePlanesParallel_self_iff\<close>); a nonzero normal is not enough, see below.
\<close>

theorem nonParallel_set_empty:
  assumes "\<forall>cp \<in> set contourPlanes. finite_unit_normal (plane cp)"
  shows "nonParallelPlanes (snd (computeCells (newSpacePartitioner contourPlanes))) = [] \<and>
         fst (computeCells (newSpacePartitioner contourPlanes)) =
           cells (computeParallelPlaneCells (newSpacePartitioner contourPlanes)) \<and>
         (\<forall>c \<in> set (fst (computeCells (newSpacePartitioner contourPlanes))).
            \<exists>bottom top'. c = slabCell bottom top')"
proof -
  let ?st = "newSpacePartitioner contourPlanes"
  have np0: "nonParallelPlanes ?st = []" and c0: "cells ?st = []"
    by (simp_all add: newSpacePartitioner_def Let_def classifyPlanes_def addBoundingBoxPlanes_def)
  have "filter (isNonParallel (parallelGroups ?st)) (originalPlanes ?st) = []"
    using newSpacePartitioner_covered [OF assms] by (simp add: isNonParallel_covered filter_empty_conv)
  then have eq: "computeNonParallelPlaneCells (computeParallelPlaneCells ?st) =
      (computeParallelPlaneCells ?st)\<lparr>nonParallelPlanes := []\<rparr>"
    by (simp add: computeNonParallelPlaneCells_def computeParallelPlaneCells_eq Let_def np0)
  have slabs: "\<forall>c \<in> set (cells (computeParallelPlaneCells ?st)). \<exists>bottom top'. c = slabCell bottom top'"
    by (auto simp: computeParallelPlaneCells_eq c0 groupSlabs_def)
  show ?thesis using eq slabs by (simp add: computeCells_def Let_def)
qed


subsection \<open>The slab builder\<close>

lemma fge_iff_not_flt: "x \<noteq> NaN \<Longrightarrow> y \<noteq> NaN \<Longrightarrow> fge y x \<longleftrightarrow> \<not> flt y x"
  by (cases x; cases y) (auto simp: fge_def)

lemma fge_trans: "fge y x \<Longrightarrow> fge z y \<Longrightarrow> fge z x"
  by (cases x; cases y; cases z) (auto simp: fge_def)

lemma flt_imp_fge: "flt x y \<Longrightarrow> fge y x"
  by (simp add: fge_def)

lemma set_insert_by_d: "set (insert_by_d p ps) = insert p (set ps)"
  by (induction ps) auto

lemma mset_insert_by_d: "mset (insert_by_d p ps) = add_mset p (mset ps)"
  by (induction ps) simp_all

lemma mset_sort_by_d: "mset (sort_by_d ps) = mset ps"
  by (induction ps) (simp_all add: mset_insert_by_d)

lemma set_sort_by_d: "set (sort_by_d ps) = set ps"
  using mset_sort_by_d [of ps] by (metis set_mset_mset)

lemma ascending_insert_by_d:
  assumes "ascending_d ps" and "d_of p \<noteq> NaN" and "\<forall>q \<in> set ps. d_of q \<noteq> NaN"
  shows "ascending_d (insert_by_d p ps)"
  using assms
proof (induction ps)
  case Nil
  then show ?case by (simp add: ascending_d_def)
next
  case (Cons q qs)
  show ?case
  proof (cases "flt (d_of q) (d_of p)")
    case True
    from Cons have "ascending_d (insert_by_d p qs)" by (simp add: ascending_d_def)
    moreover have "\<forall>r \<in> set (insert_by_d p qs). fge (d_of r) (d_of q)"
      using Cons.prems(1) True by (auto simp: set_insert_by_d ascending_d_def flt_imp_fge)
    ultimately show ?thesis using True by (simp add: ascending_d_def d_of_def)
  next
    case False
    then have pq: "fge (d_of q) (d_of p)"
      using Cons.prems(2,3) by (simp add: fge_iff_not_flt)
    have "\<forall>r \<in> set qs. fge (d_of r) (d_of p)"
      using Cons.prems(1) pq by (auto simp: ascending_d_def intro: fge_trans)
    with pq Cons.prems(1) False show ?thesis by (simp add: ascending_d_def d_of_def)
  qed
qed

lemma ascending_sort_by_d:
  "\<forall>q \<in> set ps. d_of q \<noteq> NaN \<Longrightarrow> ascending_d (sort_by_d ps)"
proof (induction ps)
  case Nil
  then show ?case by (simp add: ascending_d_def)
next
  case (Cons p ps)
  then show ?case by (simp add: ascending_insert_by_d set_sort_by_d)
qed

lemma upt_4: "[0..<4] = [0, 1, 2, 3]"
  by (simp add: upt_rec)

lemma slabCell_shape:
  "length (cellVertices (slabCell bottom top')) = 8 \<and> length (edges (slabCell bottom top')) = 12 \<and>
   boundaryPlanes (slabCell bottom top') = [bottom, top']"
  by (simp add: slabCell_def Let_def upt_4 slabEdges_def)

text \<open>
  Claim C4: for a group of \<open>N\<close> planes the slab builder appends the cells \<open>groupSlabs\<close>:
  \<open>N - 1\<close> of them when \<open>N \<ge> 2\<close> and none otherwise. The planes are sorted by \<open>d\<close>
  (a permutation of the group, ascending when no \<open>d\<close> is \<open>NaN\<close>), cell \<open>i\<close> is the slab
  of the sorted planes \<open>i\<close> and \<open>i + 1\<close>, and it has 8 vertices, 12 edges and exactly
  these two planes, bottom then top, as boundary planes.
\<close>

theorem slab_builder_group:
  "cells (computeParallelPlaneCells st) = cells st @ concat (map groupSlabs (parallelGroups st)) \<and>
   cells (slabsOfGroup grp st) = cells st @ groupSlabs grp \<and>
   length (groupSlabs grp) = length (planes grp) - 1 \<and>
   (length (planes grp) < 2 \<longrightarrow> cells (slabsOfGroup grp st) = cells st) \<and>
   mset (sort_by_d (planes grp)) = mset (planes grp) \<and>
   ((\<forall>p \<in> set (planes grp). d_of p \<noteq> NaN) \<longrightarrow> ascending_d (sort_by_d (planes grp))) \<and>
   (\<forall>i < length (planes grp) - 1.
      groupSlabs grp ! i = slabCell (plane (sort_by_d (planes grp) ! i)) (plane (sort_by_d (planes grp) ! (i + 1))) \<and>
      length (cellVertices (groupSlabs grp ! i)) = 8 \<and>
      length (edges (groupSlabs grp ! i)) = 12 \<and>
      boundaryPlanes (groupSlabs grp ! i) =
        [plane (sort_by_d (planes grp) ! i), plane (sort_by_d (planes grp) ! (i + 1))])"
proof -
  have a: "cells (slabsOfGroup grp st) = cells st @ groupSlabs grp"
    by (simp add: slabsOfGroup_eq)
  have b: "length (groupSlabs grp) = length (planes grp) - 1"
    by (simp add: groupSlabs_def)
  have c: "length (planes grp) < 2 \<longrightarrow> cells (slabsOfGroup grp st) = cells st"
    by (simp add: slabsOfGroup_def)
  have d: "(\<forall>p \<in> set (planes grp). d_of p \<noteq> NaN) \<longrightarrow> ascending_d (sort_by_d (planes grp))"
    by (simp add: ascending_sort_by_d)
  have e: "\<forall>i < length (planes grp) - 1.
      groupSlabs grp ! i = slabCell (plane (sort_by_d (planes grp) ! i)) (plane (sort_by_d (planes grp) ! (i + 1))) \<and>
      length (cellVertices (groupSlabs grp ! i)) = 8 \<and>
      length (edges (groupSlabs grp ! i)) = 12 \<and>
      boundaryPlanes (groupSlabs grp ! i) =
        [plane (sort_by_d (planes grp) ! i), plane (sort_by_d (planes grp) ! (i + 1))]"
    by (simp add: groupSlabs_def slabCell_shape)
  have f: "cells (computeParallelPlaneCells st) = cells st @ concat (map groupSlabs (parallelGroups st))"
    by (simp add: computeParallelPlaneCells_eq)
  from a b c d e f mset_sort_by_d show ?thesis by blast
qed

subsection \<open>The closure planes\<close>

lemma round_half_even_nonneg: "0 \<le> x \<Longrightarrow> 0 \<le> round_half_even x"
  by (simp add: round_half_even_def Let_def)

lemma if_same_or_else:
  "(if a then s else if b then s else t) = s \<or> (if a then s else if b then s else t) = t"
  by simp

lemma rnd_cases:
  "rnd x = signed_inf x \<or>
   rnd x = Fin (sgn x * (real_of_int (round_half_even (\<bar>x\<bar> * 2 ^ 149 / 2 ^ level (\<bar>x\<bar> * 2 ^ 149))) *
                          2 ^ level (\<bar>x\<bar> * 2 ^ 149) / 2 ^ 149))"
  unfolding rnd_def Let_def by (rule if_same_or_else)

lemma rnd_nonneg: "0 \<le> x \<Longrightarrow> fge (rnd x) (Fin 0)"
proof (cases "x = 0")
  case True
  then show ?thesis by (simp add: rnd_0 fge_def)
next
  case False
  assume "0 \<le> x"
  with False have x: "0 < x" by simp
  define v where "v = sgn x * (real_of_int (round_half_even (\<bar>x\<bar> * 2 ^ 149 / 2 ^ level (\<bar>x\<bar> * 2 ^ 149))) *
      2 ^ level (\<bar>x\<bar> * 2 ^ 149) / 2 ^ 149)"
  have k: "0 \<le> round_half_even (\<bar>x\<bar> * 2 ^ 149 / 2 ^ level (\<bar>x\<bar> * 2 ^ 149))"
    by (rule round_half_even_nonneg) simp
  have v: "0 \<le> v"
    unfolding v_def using x k by (simp add: sgn_if del: power_numeral)
  have inf: "signed_inf x = PInf"
    using x by (simp add: signed_inf_def)
  from rnd_cases [of x] have "rnd x = PInf \<or> rnd x = Fin v"
    unfolding v_def inf .
  with v show ?thesis by (auto simp: fge_def)
qed

lemma finite_float_Fin: "finite_float (Fin r) \<longleftrightarrow> rnd r = Fin r"
  by (simp add: finite_float_def is_float_def is_finite_def)

lemma finite_float_cases: "finite_float x \<Longrightarrow> \<exists>r. x = Fin r \<and> rnd r = Fin r"
  by (cases x) (simp_all add: finite_float_def is_float_def is_finite_def)

lemma flt_FinD: "flt a x \<Longrightarrow> flt x b \<Longrightarrow> \<exists>r. x = Fin r"
  by (cases x; cases a; cases b) simp_all

lemma dist_lower: "flt a (Fin r) \<Longrightarrow> fge (fadd (Fin r) (fneg a)) (Fin 0)"
  by (cases a) (simp_all add: rnd_nonneg, simp add: fge_def)

lemma dist_upper: "flt (Fin r) b \<Longrightarrow> fge (fadd (Fin (- r)) b) (Fin 0)"
  by (cases b) (simp_all add: rnd_nonneg, simp add: fge_def)

lemma finite_vec3_cases:
  assumes "finite_vec3 v"
  obtains x y z where "vec3_x v = Fin x" "vec3_y v = Fin y" "vec3_z v = Fin z"
    "rnd x = Fin x" "rnd y = Fin y" "rnd z = Fin z"
proof -
  from assms have "finite_float (vec3_x v)" "finite_float (vec3_y v)" "finite_float (vec3_z v)"
    by (simp_all add: finite_vec3_def)
  then obtain x y z where "vec3_x v = Fin x \<and> rnd x = Fin x" "vec3_y v = Fin y \<and> rnd y = Fin y"
    "vec3_z v = Fin z \<and> rnd z = Fin z"
    using finite_float_cases by blast
  with that show ?thesis by blast
qed

lemma boxPlanes_inward:
  assumes "strictlyInside bbox pt" and "finite_vec3 pt"
  shows "\<forall>cp \<in> set (boxPlanes bbox). fge (computeDistance (plane cp) pt) (Fin 0)"
proof -
  from assms(2) obtain x y z where pt: "vec3_x pt = Fin x" "vec3_y pt = Fin y" "vec3_z pt = Fin z"
    and fl: "rnd x = Fin x" "rnd y = Fin y" "rnd z = Fin z"
    by (rule finite_vec3_cases)
  have nfl: "rnd (- x) = Fin (- x)" "rnd (- y) = Fin (- y)" "rnd (- z) = Fin (- z)"
    by (simp_all add: rnd_minus fl)
  from assms(1) show ?thesis
    unfolding strictlyInside_def pt
    by (simp add: boxPlanes_def upt_6 boxPlaneEquations_def mkPlane_def computeDistance_def pt
        fl nfl rnd_0 dist_lower dist_upper)
qed

lemma boxPlanes_vertices:
  "map vertices (boxPlanes bbox) =
     [[mkVertex (vec3_x (bbox_min bbox)) (vec3_y (bbox_min bbox)) (vec3_z (bbox_min bbox)),
       mkVertex (vec3_x (bbox_min bbox)) (vec3_y (bbox_max bbox)) (vec3_z (bbox_min bbox)),
       mkVertex (vec3_x (bbox_min bbox)) (vec3_y (bbox_max bbox)) (vec3_z (bbox_max bbox)),
       mkVertex (vec3_x (bbox_min bbox)) (vec3_y (bbox_min bbox)) (vec3_z (bbox_max bbox))],
      [mkVertex (vec3_x (bbox_max bbox)) (vec3_y (bbox_min bbox)) (vec3_z (bbox_min bbox)),
       mkVertex (vec3_x (bbox_max bbox)) (vec3_y (bbox_max bbox)) (vec3_z (bbox_min bbox)),
       mkVertex (vec3_x (bbox_max bbox)) (vec3_y (bbox_max bbox)) (vec3_z (bbox_max bbox)),
       mkVertex (vec3_x (bbox_max bbox)) (vec3_y (bbox_min bbox)) (vec3_z (bbox_max bbox))],
      [mkVertex (vec3_x (bbox_min bbox)) (vec3_y (bbox_min bbox)) (vec3_z (bbox_min bbox)),
       mkVertex (vec3_x (bbox_max bbox)) (vec3_y (bbox_min bbox)) (vec3_z (bbox_min bbox)),
       mkVertex (vec3_x (bbox_max bbox)) (vec3_y (bbox_min bbox)) (vec3_z (bbox_max bbox)),
       mkVertex (vec3_x (bbox_min bbox)) (vec3_y (bbox_min bbox)) (vec3_z (bbox_max bbox))],
      [mkVertex (vec3_x (bbox_min bbox)) (vec3_y (bbox_max bbox)) (vec3_z (bbox_min bbox)),
       mkVertex (vec3_x (bbox_max bbox)) (vec3_y (bbox_max bbox)) (vec3_z (bbox_min bbox)),
       mkVertex (vec3_x (bbox_max bbox)) (vec3_y (bbox_max bbox)) (vec3_z (bbox_max bbox)),
       mkVertex (vec3_x (bbox_min bbox)) (vec3_y (bbox_max bbox)) (vec3_z (bbox_max bbox))],
      [mkVertex (vec3_x (bbox_min bbox)) (vec3_y (bbox_min bbox)) (vec3_z (bbox_min bbox)),
       mkVertex (vec3_x (bbox_max bbox)) (vec3_y (bbox_min bbox)) (vec3_z (bbox_min bbox)),
       mkVertex (vec3_x (bbox_max bbox)) (vec3_y (bbox_max bbox)) (vec3_z (bbox_min bbox)),
       mkVertex (vec3_x (bbox_min bbox)) (vec3_y (bbox_max bbox)) (vec3_z (bbox_min bbox))],
      [mkVertex (vec3_x (bbox_min bbox)) (vec3_y (bbox_min bbox)) (vec3_z (bbox_max bbox)),
       mkVertex (vec3_x (bbox_max bbox)) (vec3_y (bbox_min bbox)) (vec3_z (bbox_max bbox)),
       mkVertex (vec3_x (bbox_max bbox)) (vec3_y (bbox_max bbox)) (vec3_z (bbox_max bbox)),
       mkVertex (vec3_x (bbox_min bbox)) (vec3_y (bbox_max bbox)) (vec3_z (bbox_max bbox))]] \<and>
   map numVertices (boxPlanes bbox) = [4, 4, 4, 4, 4, 4]"
  by (simp add: boxPlanes_def upt_6 boxPlaneVertices_def Let_def)

lemma boxPlanes_vertices_on_plane:
  assumes "finiteBox bbox"
  shows "\<forall>cp \<in> set (boxPlanes bbox). \<forall>v \<in> set (vertices cp).
           computeDistance (plane cp) (vertexPos v) = Fin 0"
proof -
  from assms have "finite_vec3 (bbox_min bbox)" and "finite_vec3 (bbox_max bbox)"
    by (simp_all add: finiteBox_def)
  then obtain a b c a' b' c' where
    mn: "vec3_x (bbox_min bbox) = Fin a" "vec3_y (bbox_min bbox) = Fin b" "vec3_z (bbox_min bbox) = Fin c"
    and mx: "vec3_x (bbox_max bbox) = Fin a'" "vec3_y (bbox_max bbox) = Fin b'" "vec3_z (bbox_max bbox) = Fin c'"
    and fl: "rnd a = Fin a" "rnd b = Fin b" "rnd c = Fin c" "rnd a' = Fin a'" "rnd b' = Fin b'" "rnd c' = Fin c'"
    by (elim finite_vec3_cases) blast
  have nfl: "rnd (- a') = Fin (- a')" "rnd (- b') = Fin (- b')" "rnd (- c') = Fin (- c')"
    by (simp_all add: rnd_minus fl)
  show ?thesis
    by (simp add: boxPlanes_def upt_6 boxPlaneVertices_def boxPlaneEquations_def Let_def mkVertex_def
        mkPlane_def computeDistance_def vertexPos_def Vec3_def mn mx fl nfl rnd_0)
qed

lemma joinGroup_mset:
  "joinGroup cp groups = Some groups' \<Longrightarrow>
   mset (concat (map planes groups')) = add_mset cp (mset (concat (map planes groups)))"
proof (induction groups arbitrary: groups')
  case Nil
  then show ?case by simp
next
  case (Cons g gs)
  then show ?case by (auto split: if_splits)
qed

lemma classifyPlane_mset:
  "mset (concat (map planes (classifyPlane cp groups))) = add_mset cp (mset (concat (map planes groups)))"
  by (cases "joinGroup cp groups") (simp_all add: classifyPlane_def joinGroup_mset)

lemma classify_fold_mset:
  "mset (concat (map planes (foldl (\<lambda>gs cp. classifyPlane cp gs) groups cps))) =
     mset cps + mset (concat (map planes groups))"
  by (induction cps arbitrary: groups) (simp_all add: classifyPlane_mset)

lemma originalPlanes_newSpacePartitioner:
  "originalPlanes (newSpacePartitioner cps) =
     cps @ boxPlanes (computeTightBoundingBox (emptyPartitioner cps))"
  by (simp add: newSpacePartitioner_def emptyPartitioner_def Let_def classifyPlanes_def addBoundingBoxPlanes_def)

lemma groups_newSpacePartitioner_mset:
  "mset (concat (map planes (parallelGroups (newSpacePartitioner cps)))) =
     mset (originalPlanes (newSpacePartitioner cps))"
  by (simp add: newSpacePartitioner_def Let_def classifyPlanes_def addBoundingBoxPlanes_def classify_fold_mset)

text \<open>
  Claim C9: \<^verbatim>\<open>addBoundingBoxPlanes\<close> appends exactly six planes to the working set, in
  the order min-X, max-X, min-Y, max-Y, min-Z, max-Z, with the equations below (the
  min-X plane is \<open>(1, 0, 0, -min.x)\<close>). Each carries the four corners of its face of the
  box, in the order listed, and \<open>numVertices = 4\<close>; when the box is made of finite floats
  each of these vertices lies on its plane. Every point of finite floats strictly inside
  the box has a signed distance \<open>\<ge> 0\<close> to each of the six planes. The constructor appends
  them to the input planes and classifies all of them: the groups hold exactly the
  planes of the working set.
\<close>

theorem addBoundingBoxPlanes_closure:
  "originalPlanes (addBoundingBoxPlanes bbox st) = originalPlanes st @ boxPlanes bbox \<and>
   length (boxPlanes bbox) = 6 \<and>
   map plane (boxPlanes bbox) =
     [mkPlane (Fin 1) (Fin 0) (Fin 0) (fneg (vec3_x (bbox_min bbox))),
      mkPlane (Fin (- 1)) (Fin 0) (Fin 0) (vec3_x (bbox_max bbox)),
      mkPlane (Fin 0) (Fin 1) (Fin 0) (fneg (vec3_y (bbox_min bbox))),
      mkPlane (Fin 0) (Fin (- 1)) (Fin 0) (vec3_y (bbox_max bbox)),
      mkPlane (Fin 0) (Fin 0) (Fin 1) (fneg (vec3_z (bbox_min bbox))),
      mkPlane (Fin 0) (Fin 0) (Fin (- 1)) (vec3_z (bbox_max bbox))] \<and>
   map vertices (boxPlanes bbox) =
     [[mkVertex (vec3_x (bbox_min bbox)) (vec3_y (bbox_min bbox)) (vec3_z (bbox_min bbox)),
       mkVertex (vec3_x (bbox_min bbox)) (vec3_y (bbox_max bbox)) (vec3_z (bbox_min bbox)),
       mkVertex (vec3_x (bbox_min bbox)) (vec3_y (bbox_max bbox)) (vec3_z (bbox_max bbox)),
       mkVertex (vec3_x (bbox_min bbox)) (vec3_y (bbox_min bbox)) (vec3_z (bbox_max bbox))],
      [mkVertex (vec3_x (bbox_max bbox)) (vec3_y (bbox_min bbox)) (vec3_z (bbox_min bbox)),
       mkVertex (vec3_x (bbox_max bbox)) (vec3_y (bbox_max bbox)) (vec3_z (bbox_min bbox)),
       mkVertex (vec3_x (bbox_max bbox)) (vec3_y (bbox_max bbox)) (vec3_z (bbox_max bbox)),
       mkVertex (vec3_x (bbox_max bbox)) (vec3_y (bbox_min bbox)) (vec3_z (bbox_max bbox))],
      [mkVertex (vec3_x (bbox_min bbox)) (vec3_y (bbox_min bbox)) (vec3_z (bbox_min bbox)),
       mkVertex (vec3_x (bbox_max bbox)) (vec3_y (bbox_min bbox)) (vec3_z (bbox_min bbox)),
       mkVertex (vec3_x (bbox_max bbox)) (vec3_y (bbox_min bbox)) (vec3_z (bbox_max bbox)),
       mkVertex (vec3_x (bbox_min bbox)) (vec3_y (bbox_min bbox)) (vec3_z (bbox_max bbox))],
      [mkVertex (vec3_x (bbox_min bbox)) (vec3_y (bbox_max bbox)) (vec3_z (bbox_min bbox)),
       mkVertex (vec3_x (bbox_max bbox)) (vec3_y (bbox_max bbox)) (vec3_z (bbox_min bbox)),
       mkVertex (vec3_x (bbox_max bbox)) (vec3_y (bbox_max bbox)) (vec3_z (bbox_max bbox)),
       mkVertex (vec3_x (bbox_min bbox)) (vec3_y (bbox_max bbox)) (vec3_z (bbox_max bbox))],
      [mkVertex (vec3_x (bbox_min bbox)) (vec3_y (bbox_min bbox)) (vec3_z (bbox_min bbox)),
       mkVertex (vec3_x (bbox_max bbox)) (vec3_y (bbox_min bbox)) (vec3_z (bbox_min bbox)),
       mkVertex (vec3_x (bbox_max bbox)) (vec3_y (bbox_max bbox)) (vec3_z (bbox_min bbox)),
       mkVertex (vec3_x (bbox_min bbox)) (vec3_y (bbox_max bbox)) (vec3_z (bbox_min bbox))],
      [mkVertex (vec3_x (bbox_min bbox)) (vec3_y (bbox_min bbox)) (vec3_z (bbox_max bbox)),
       mkVertex (vec3_x (bbox_max bbox)) (vec3_y (bbox_min bbox)) (vec3_z (bbox_max bbox)),
       mkVertex (vec3_x (bbox_max bbox)) (vec3_y (bbox_max bbox)) (vec3_z (bbox_max bbox)),
       mkVertex (vec3_x (bbox_min bbox)) (vec3_y (bbox_max bbox)) (vec3_z (bbox_max bbox))]] \<and>
   map numVertices (boxPlanes bbox) = [4, 4, 4, 4, 4, 4] \<and>
   (finiteBox bbox \<longrightarrow>
      (\<forall>cp \<in> set (boxPlanes bbox). \<forall>v \<in> set (vertices cp).
         computeDistance (plane cp) (vertexPos v) = Fin 0)) \<and>
   (strictlyInside bbox pt \<and> finite_vec3 pt \<longrightarrow>
      (\<forall>cp \<in> set (boxPlanes bbox). fge (computeDistance (plane cp) pt) (Fin 0))) \<and>
   originalPlanes (newSpacePartitioner cps) =
     cps @ boxPlanes (computeTightBoundingBox (emptyPartitioner cps)) \<and>
   mset (concat (map planes (parallelGroups (newSpacePartitioner cps)))) =
     mset (originalPlanes (newSpacePartitioner cps))"
proof -
  have a: "originalPlanes (addBoundingBoxPlanes bbox st) = originalPlanes st @ boxPlanes bbox"
    by (simp add: addBoundingBoxPlanes_def)
  have b: "map plane (boxPlanes bbox) =
     [mkPlane (Fin 1) (Fin 0) (Fin 0) (fneg (vec3_x (bbox_min bbox))),
      mkPlane (Fin (- 1)) (Fin 0) (Fin 0) (vec3_x (bbox_max bbox)),
      mkPlane (Fin 0) (Fin 1) (Fin 0) (fneg (vec3_y (bbox_min bbox))),
      mkPlane (Fin 0) (Fin (- 1)) (Fin 0) (vec3_y (bbox_max bbox)),
      mkPlane (Fin 0) (Fin 0) (Fin 1) (fneg (vec3_z (bbox_min bbox))),
      mkPlane (Fin 0) (Fin 0) (Fin (- 1)) (vec3_z (bbox_max bbox))]"
    by (simp add: boxPlanes_def upt_6 boxPlaneEquations_def)
  have six: "length (boxPlanes bbox) = 6"
    by (simp add: boxPlanes_def)
  note v = boxPlanes_vertices [of bbox, THEN conjunct1]
  note n = boxPlanes_vertices [of bbox, THEN conjunct2]
  have on: "finiteBox bbox \<longrightarrow>
      (\<forall>cp \<in> set (boxPlanes bbox). \<forall>v \<in> set (vertices cp).
         computeDistance (plane cp) (vertexPos v) = Fin 0)"
    using boxPlanes_vertices_on_plane [of bbox] by (rule impI)
  have inw: "strictlyInside bbox pt \<and> finite_vec3 pt \<longrightarrow>
      (\<forall>cp \<in> set (boxPlanes bbox). fge (computeDistance (plane cp) pt) (Fin 0))"
    using boxPlanes_inward [of bbox pt] by (intro impI) (elim conjE)
  note o = originalPlanes_newSpacePartitioner [of cps]
  note g = groups_newSpacePartitioner_mset [of cps]
  show ?thesis
    by (intro conjI) (rule a six b v n on inw o g)+
qed


subsection \<open>Accepted vertices and the assembled cell\<close>






text \<open>
  What the test of the solver gives for an accepted vertex: its signed distance to a
  plane given to the solver is at most the tolerance, or it is \<open>NaN\<close>.
\<close>

lemma passesFilter_cases:
  "passesFilter p v \<longleftrightarrow>
     computeDistance p (vertexPos v) = NaN \<or> fge tolerance (computeDistance p (vertexPos v))"
  by (cases "computeDistance p (vertexPos v)")
     (auto simp: passesFilter_def fgt_def fge_def tolerance_value)



lemma findIntersectionVertices_cells:
  "cells (findIntersectionVertices pls st) =
     (if intersectionVertices pls = [] then cells st else cells st @ [assembledCell pls])"
  by (simp add: findIntersectionVertices_def createCellFromIntersection_def assembledCell_def Let_def)



section \<open>The program on concrete inputs\<close>

subsection \<open>Evaluation lemmas\<close>

text \<open>The roundings that normalising the normal \<open>(3, 4, 0)\<close> and comparing it needs.\<close>

lemma rnd_fifth: "rnd (1 / 5) = Fin (13421773 / 67108864)"
  by (simp add: rnd_eval)

lemma rnd_three_fifths: "rnd (40265319 / 67108864) = Fin (5033165 / 8388608)"
  by (simp add: rnd_eval)

lemma rnd_floats:
  "rnd (13421773 / 16777216) = Fin (13421773 / 16777216)"
  "rnd (5033165 / 8388608) = Fin (5033165 / 8388608)"
  "rnd (3355443 / 8388608) = Fin (3355443 / 8388608)"
  "rnd (3355443 / 16777216) = Fin (3355443 / 16777216)"
  "rnd (- (3355443 / 8388608)) = Fin (- (3355443 / 8388608))"
  "rnd (- (3355443 / 16777216)) = Fin (- (3355443 / 16777216))"
  by (simp_all add: rnd_eval)

lemmas rnd_values = rnd_fifth rnd_three_fifths rnd_floats

lemmas glm_defs = Vec3_def vec3_splat_def vec3_neg_def vec3_add_def vec3_sub_def vec3_scale_def
  glm_dot_def glm_inversesqrt_def glm_normalize_def glm_abs_def glm_all_epsilonEqual_def glm_cross_def
  Mat3_def mat3_mul_vec_def glm_determinant_def glm_inverse_def
  fsub_def fgt_def fge_def signed_inf_def std_min_def std_max_def FLT_MAX_def tolerance_value
  Let_def rnd_ints rnd_values

lemmas box_defs = boxPlanes_def upt_6 boxPlaneEquations_def boxPlaneVertices_def mkPlane_def mkVertex_def

lemmas solver_defs = intersectionVertices_def tripleVertex_def isValid_def computePlaneIntersection_def
  computeDistance_def arePlanesParallel_def plane_normal_def mkPlane_def mkVertex_def solverInput_def
  vertexPos_def

lemma computeCells_parallel_only:
  assumes "nonParallelPlanes st = []"
    and "filter (isNonParallel (parallelGroups st)) (originalPlanes st) = []"
  shows "computeCells st =
           (cells st @ concat (map groupSlabs (parallelGroups st)),
            st\<lparr>cells := cells st @ concat (map groupSlabs (parallelGroups st))\<rparr>)"
  using assms
  by (simp add: computeCells_def computeNonParallelPlaneCells_def computeParallelPlaneCells_eq Let_def)

lemma slanted_bbox: "computeTightBoundingBox (emptyPartitioner slantedInput) = slantedBox"
  by (simp add: computeTightBoundingBox_def emptyPartitioner_def slantedInput_def slantedBox_def growBox_def
      mkVertex_def mkPlane_def glm_defs Let_def)

lemma slanted_state:
  "newSpacePartitioner slantedInput =
     \<lparr>originalPlanes = slantedInput @ boxPlanes slantedBox, parallelGroups = slantedGroups,
      nonParallelPlanes = [], cells = []\<rparr>"
  unfolding newSpacePartitioner_def Let_def slanted_bbox [unfolded emptyPartitioner_def]
  by (simp add: slantedGroups_def slantedInput_def slantedBox_def addBoundingBoxPlanes_def classifyPlanes_def
      box_defs classifyPlane_def arePlanesParallel_def plane_normal_def glm_defs Let_def)

lemma slanted_nonParallel:
  "filter (isNonParallel slantedGroups) (slantedInput @ boxPlanes slantedBox) = []"
  by (simp add: isNonParallel_def slantedGroups_def slantedInput_def slantedBox_def
      box_defs arePlanesParallel_def plane_normal_def glm_defs Let_def)

lemma slanted_groupSlabs: "concat (map groupSlabs slantedGroups) = slantedCells"
  by (simp add: slantedGroups_def slantedInput_def slantedBox_def groupSlabs_def box_defs slantedCells_def Vec3_def)

lemma slanted_cells:
  "computeCells (newSpacePartitioner slantedInput) =
     (slantedCells,
      \<lparr>originalPlanes = slantedInput @ boxPlanes slantedBox, parallelGroups = slantedGroups,
       nonParallelPlanes = [], cells = slantedCells\<rparr>)"
  unfolding slanted_state
  by (simp add: computeCells_parallel_only slanted_nonParallel slanted_groupSlabs del: filter_append)

lemma zaxis_vertices: "intersectionVertices zaxisPlanes = [nanVertex]"
  by (simp add: zaxisPlanes_def nanVertex_def solver_defs glm_defs Let_def upt_rec)

lemma closure_vertices: "intersectionVertices (boxPlanes unitBox) = []"
  by (simp add: unitBox_def box_defs solver_defs glm_defs Let_def upt_rec)

lemma zeroNormal_bbox: "computeTightBoundingBox (emptyPartitioner zeroNormalInput) = zeroNormalBox"
  by (simp add: computeTightBoundingBox_def emptyPartitioner_def zeroNormalInput_def zeroNormalPlane_def
      zeroNormalBox_def growBox_def mkVertex_def mkPlane_def glm_defs Let_def)

lemma zeroNormal_state:
  "newSpacePartitioner zeroNormalInput =
     \<lparr>originalPlanes = zeroNormalInput @ boxPlanes zeroNormalBox, parallelGroups = zeroNormalGroups,
      nonParallelPlanes = [], cells = []\<rparr>"
  unfolding newSpacePartitioner_def Let_def zeroNormal_bbox [unfolded emptyPartitioner_def]
  by (simp add: zeroNormalGroups_def zeroNormalInput_def zeroNormalPlane_def zeroNormalBox_def
      addBoundingBoxPlanes_def classifyPlanes_def
      box_defs classifyPlane_def arePlanesParallel_def plane_normal_def glm_defs Let_def)

lemma zeroNormal_nonParallel:
  "filter (isNonParallel zeroNormalGroups) (zeroNormalInput @ boxPlanes zeroNormalBox) = zeroNormalInput"
  by (simp add: isNonParallel_def zeroNormalGroups_def zeroNormalInput_def zeroNormalPlane_def zeroNormalBox_def
      box_defs arePlanesParallel_def plane_normal_def glm_defs Let_def)

lemma zeroNormal_vertices: "intersectionVertices zeroNormalInput = [nanVertex]"
  by (simp add: zeroNormalInput_def zeroNormalPlane_def nanVertex_def solver_defs glm_defs Let_def upt_rec)

lemma zeroNormal_cells:
  "fst (computeCells (newSpacePartitioner zeroNormalInput)) =
     concat (map groupSlabs zeroNormalGroups) @
     [\<lparr>cellVertices = [nanVertex], edges = [], boundaryPlanes = map plane zeroNormalInput\<rparr>]"
  unfolding zeroNormal_state
  by (simp add: computeCells_def computeNonParallelPlaneCells_def computeParallelPlaneCells_eq Let_def
      zeroNormal_nonParallel findIntersectionVertices_def createCellFromIntersection_def
      zeroNormal_vertices del: filter_append)
     (simp add: zeroNormalInput_def cellEdges_def nanVertex_def)



lemma closure_state:
  "classifyPlanes (emptyPartitioner (boxPlanes unitBox)) =
     \<lparr>originalPlanes = boxPlanes unitBox, parallelGroups = closureGroups, nonParallelPlanes = [], cells = []\<rparr>"
  by (simp add: classifyPlanes_def emptyPartitioner_def closureGroups_def unitBox_def
      box_defs classifyPlane_def arePlanesParallel_def plane_normal_def glm_defs Let_def)

lemma closure_nonParallel: "filter (isNonParallel closureGroups) (boxPlanes unitBox) = []"
  by (simp add: isNonParallel_def closureGroups_def unitBox_def
      box_defs arePlanesParallel_def plane_normal_def glm_defs Let_def)

lemma closure_cells:
  "computeCells (classifyPlanes (emptyPartitioner (boxPlanes unitBox))) =
     (concat (map groupSlabs closureGroups),
      \<lparr>originalPlanes = boxPlanes unitBox, parallelGroups = closureGroups, nonParallelPlanes = [],
       cells = concat (map groupSlabs closureGroups)\<rparr>)"
  unfolding closure_state
  by (simp add: computeCells_parallel_only closure_nonParallel)

lemma rnd_tiny: "rnd (1 / 2 ^ 100) = Fin (1 / 2 ^ 100)"
  by (simp add: rnd_eval)

lemma rnd_tiny_square: "rnd (1 / 2 ^ 200) = Fin 0"
  by (simp add: rnd_eval)

lemmas tiny_square = rnd_tiny_square [simplified]

lemma tiny_unit_normal: "glm_normalize (plane_normal (plane tinyPlane)) = Vec3 PInf NaN NaN"
  by (simp add: tinyPlane_def plane_normal_def mkPlane_def glm_defs tiny_square)

lemma tiny_bbox: "computeTightBoundingBox (emptyPartitioner tinyInput) = zeroNormalBox"
  by (simp add: computeTightBoundingBox_def emptyPartitioner_def tinyInput_def tinyPlane_def
      zeroNormalBox_def growBox_def mkVertex_def mkPlane_def glm_defs Let_def)

lemma tiny_state:
  "newSpacePartitioner tinyInput =
     \<lparr>originalPlanes = tinyInput @ boxPlanes zeroNormalBox, parallelGroups = tinyGroups,
      nonParallelPlanes = [], cells = []\<rparr>"
  unfolding newSpacePartitioner_def Let_def tiny_bbox [unfolded emptyPartitioner_def]
  by (simp add: tinyGroups_def tinyInput_def tinyPlane_def zeroNormalBox_def
      addBoundingBoxPlanes_def classifyPlanes_def
      box_defs classifyPlane_def arePlanesParallel_def plane_normal_def glm_defs Let_def tiny_square)

lemma tiny_nonParallel:
  "filter (isNonParallel tinyGroups) (tinyInput @ boxPlanes zeroNormalBox) = tinyInput"
  by (simp add: isNonParallel_def tinyGroups_def tinyInput_def tinyPlane_def zeroNormalBox_def
      box_defs arePlanesParallel_def plane_normal_def glm_defs Let_def tiny_square)

lemma tiny_vertices: "intersectionVertices tinyInput = [nanVertex]"
  by (simp add: tinyInput_def tinyPlane_def nanVertex_def solver_defs glm_defs Let_def upt_rec
      tiny_square)

lemma tiny_cells:
  "fst (computeCells (newSpacePartitioner tinyInput)) =
     concat (map groupSlabs tinyGroups) @
     [\<lparr>cellVertices = [nanVertex], edges = [], boundaryPlanes = map plane tinyInput\<rparr>]"
  unfolding tiny_state
  by (simp add: computeCells_def computeNonParallelPlaneCells_def computeParallelPlaneCells_eq Let_def
      tiny_nonParallel findIntersectionVertices_def createCellFromIntersection_def
      tiny_vertices del: filter_append)
     (simp add: tinyInput_def cellEdges_def nanVertex_def)


subsection \<open>Witnesses, counterexamples and the claims the program misses\<close>

text \<open>
  Witness for the amended C1: normalising the normal \<open>(3, 4, 0)\<close> of the plane of
  \<open>slantedInput\<close> gives finite numbers; the non-parallel set is empty and the cells
  returned are the three slabs of the closure planes.
\<close>

theorem nonParallel_set_empty_witness:
  "finite_unit_normal (plane (slantedInput ! 0)) \<and>
   nonParallelPlanes (snd (computeCells (newSpacePartitioner slantedInput))) = [] \<and>
   fst (computeCells (newSpacePartitioner slantedInput)) =
     cells (computeParallelPlaneCells (newSpacePartitioner slantedInput)) \<and>
   fst (computeCells (newSpacePartitioner slantedInput)) = slantedCells"
proof -
  have f: "finite_unit_normal (plane (slantedInput ! 0))"
    by (simp add: slantedInput_def finite_unit_normal_def plane_normal_def mkPlane_def glm_defs
        is_finite_def)
  then have h: "\<forall>cp \<in> set slantedInput. finite_unit_normal (plane cp)"
    by (simp add: slantedInput_def)
  from nonParallel_set_empty [OF h] f show ?thesis
    by (simp add: slanted_cells)
qed

text \<open>
  Counterexample to C1 as stated: the three planes of \<open>tinyInput\<close> and the six closure
  planes all have a nonzero normal. The squared length \<open>2\<^sup>-\<^sup>2\<^sup>0\<^sup>0\<close> of the normal of an
  input plane underflows to zero, its inverse square root is \<open>+inf\<close>, the normalised
  normal is \<open>(+inf, NaN, NaN)\<close>, and the plane is not parallel to itself. The non-parallel
  set is the three input planes, and after the three slab cells of the closure planes
  \<^verbatim>\<open>computeCells\<close> returns a fourth cell, assembled by the intersection phase: it has
  one vertex and no edge.
\<close>

theorem tiny_normals_not_parallel:
  "nonzero_normals (originalPlanes (newSpacePartitioner tinyInput)) \<and>
   is_float (Fin (1 / 2 ^ 100)) \<and>
   glm_normalize (plane_normal (plane tinyPlane)) = Vec3 PInf NaN NaN \<and>
   \<not> arePlanesParallel (plane tinyPlane) (plane tinyPlane) \<and>
   nonParallelPlanes (snd (computeCells (newSpacePartitioner tinyInput))) = tinyInput \<and>
   length (cells (computeParallelPlaneCells (newSpacePartitioner tinyInput))) = 3 \<and>
   length (fst (computeCells (newSpacePartitioner tinyInput))) = 4 \<and>
   fst (computeCells (newSpacePartitioner tinyInput)) ! 3 =
     \<lparr>cellVertices = [nanVertex], edges = [], boundaryPlanes = map plane tinyInput\<rparr>"
proof -
  have a: "nonzero_normals (originalPlanes (newSpacePartitioner tinyInput))"
    unfolding tiny_state
    by (simp add: nonzero_normals_def nonzero_normal_def tinyInput_def tinyPlane_def zeroNormalBox_def
        box_defs mkPlane_def is_finite_def)
  have b: "is_float (Fin (1 / 2 ^ 100))"
    unfolding is_float_def cfloat.case by (rule rnd_tiny)
  have c: "\<not> arePlanesParallel (plane tinyPlane) (plane tinyPlane)"
    by (simp add: arePlanesParallel_self_iff finite_unit_normal_def tiny_unit_normal is_finite_def
        Let_def Vec3_def)
  have d: "nonParallelPlanes (snd (computeCells (newSpacePartitioner tinyInput))) = tinyInput"
    unfolding tiny_state
    by (simp add: computeCells_def computeNonParallelPlaneCells_def computeParallelPlaneCells_eq Let_def
      tiny_nonParallel findIntersectionVertices_def createCellFromIntersection_def
      tiny_vertices del: filter_append)
  have n: "length (concat (map groupSlabs tinyGroups)) = 3"
    by (simp add: tinyGroups_def groupSlabs_def)
  have e: "length (cells (computeParallelPlaneCells (newSpacePartitioner tinyInput))) = 3"
    unfolding tiny_state by (simp add: computeParallelPlaneCells_eq n)
  have f: "length (fst (computeCells (newSpacePartitioner tinyInput))) = 4"
    by (simp add: tiny_cells n)
  have g: "fst (computeCells (newSpacePartitioner tinyInput)) ! 3 =
     \<lparr>cellVertices = [nanVertex], edges = [], boundaryPlanes = map plane tinyInput\<rparr>"
    using n by (simp add: tiny_cells nth_append)
  show ?thesis
    by (intro conjI) (rule a b tiny_unit_normal c d e f g)+
qed

text \<open>
  Claim C2, on the input \<open>slantedInput\<close>: the constructor classifies its plane into a
  group of its own (the groups have 1, 2, 2 and 2 members), so the planes of singleton
  groups are that one plane; yet \<^verbatim>\<open>computeNonParallelPlaneCells\<close> leaves the non-parallel
  set empty, because it compares the plane with the first member of its own group too.
\<close>

theorem singleton_plane_left_out:
  "map (\<lambda>grp. length (planes grp)) (parallelGroups (newSpacePartitioner slantedInput)) = [1, 2, 2, 2] \<and>
   singletonGroupPlanes (newSpacePartitioner slantedInput) = slantedInput \<and>
   nonParallelPlanes (snd (computeCells (newSpacePartitioner slantedInput))) = []"
proof -
  have a: "map (\<lambda>grp. length (planes grp)) slantedGroups = [1, 2, 2, 2]"
    by (simp add: slantedGroups_def slantedInput_def)
  have b: "concat (map planes (filter (\<lambda>grp. length (planes grp) = 1) slantedGroups)) = slantedInput"
    by (simp add: slantedGroups_def) (simp add: slantedInput_def)
  from a b show ?thesis
    by (simp add: slanted_cells singletonGroupPlanes_def) (simp add: slanted_state)
qed

text \<open>
  Claim C3, on the six closure planes of the box \<open>[-1, 1]\<^sup>3\<close>: the triple of the planes
  0, 2 and 4 meets in the corner \<open>(-1, -1, -1)\<close>, whose signed distance to plane 1 is 2,
  above the tolerance; in this way the solver rejects every corner, accepts no vertex and
  assembles no cell. In a partitioner whose working set is these six planes the solver is
  not even reached: the non-parallel set is empty and the cells are three slabs.
\<close>

theorem closure_cube_no_vertex:
  "map plane (boxPlanes unitBox) =
     [mkPlane (Fin 1) (Fin 0) (Fin 0) (Fin 1), mkPlane (Fin (- 1)) (Fin 0) (Fin 0) (Fin 1),
      mkPlane (Fin 0) (Fin 1) (Fin 0) (Fin 1), mkPlane (Fin 0) (Fin (- 1)) (Fin 0) (Fin 1),
      mkPlane (Fin 0) (Fin 0) (Fin 1) (Fin 1), mkPlane (Fin 0) (Fin 0) (Fin (- 1)) (Fin 1)] \<and>
   computePlaneIntersection (plane (boxPlanes unitBox ! 0)) (plane (boxPlanes unitBox ! 2))
     (plane (boxPlanes unitBox ! 4)) = Vec3 (Fin (- 1)) (Fin (- 1)) (Fin (- 1)) \<and>
   computeDistance (plane (boxPlanes unitBox ! 1)) (Vec3 (Fin (- 1)) (Fin (- 1)) (Fin (- 1))) = Fin 2 \<and>
   intersectionVertices (boxPlanes unitBox) = [] \<and>
   cells (findIntersectionVertices (boxPlanes unitBox) (emptyPartitioner (boxPlanes unitBox))) = [] \<and>
   nonParallelPlanes (snd (computeCells (classifyPlanes (emptyPartitioner (boxPlanes unitBox))))) = [] \<and>
   length (fst (computeCells (classifyPlanes (emptyPartitioner (boxPlanes unitBox))))) = 3"
proof -
  have a: "map plane (boxPlanes unitBox) =
     [mkPlane (Fin 1) (Fin 0) (Fin 0) (Fin 1), mkPlane (Fin (- 1)) (Fin 0) (Fin 0) (Fin 1),
      mkPlane (Fin 0) (Fin 1) (Fin 0) (Fin 1), mkPlane (Fin 0) (Fin (- 1)) (Fin 0) (Fin 1),
      mkPlane (Fin 0) (Fin 0) (Fin 1) (Fin 1), mkPlane (Fin 0) (Fin 0) (Fin (- 1)) (Fin 1)]"
    by (simp add: unitBox_def box_defs Vec3_def)
  have b: "computePlaneIntersection (plane (boxPlanes unitBox ! 0)) (plane (boxPlanes unitBox ! 2))
     (plane (boxPlanes unitBox ! 4)) = Vec3 (Fin (- 1)) (Fin (- 1)) (Fin (- 1))"
    by (simp add: unitBox_def box_defs computePlaneIntersection_def glm_defs Let_def)
  have c: "computeDistance (plane (boxPlanes unitBox ! 1)) (Vec3 (Fin (- 1)) (Fin (- 1)) (Fin (- 1))) = Fin 2"
    by (simp add: unitBox_def box_defs computeDistance_def Vec3_def rnd_ints)
  have d: "cells (findIntersectionVertices (boxPlanes unitBox) (emptyPartitioner (boxPlanes unitBox))) = []"
    by (simp add: findIntersectionVertices_cells closure_vertices emptyPartitioner_def)
  have e: "nonParallelPlanes (snd (computeCells (classifyPlanes (emptyPartitioner (boxPlanes unitBox))))) = []"
    by (simp add: closure_cells)
  have f: "length (fst (computeCells (classifyPlanes (emptyPartitioner (boxPlanes unitBox))))) = 3"
    by (simp add: closure_cells) (simp add: closureGroups_def groupSlabs_def)
  from a b c d e f closure_vertices show ?thesis by blast
qed

text \<open>
  Witness for C4: a group of three planes with offsets 5, 1, 3 is sorted to 1, 3, 5 and
  yields two cells; the first lies between the planes of offset 1 and 3.
\<close>

theorem slab_builder_group_witness:
  "length (planes threePlaneGroup) = 3 \<and>
   map d_of (sort_by_d (planes threePlaneGroup)) = [Fin 1, Fin 3, Fin 5] \<and>
   ascending_d (sort_by_d (planes threePlaneGroup)) \<and>
   length (cells (slabsOfGroup threePlaneGroup (emptyPartitioner []))) = 2 \<and>
   boundaryPlanes (groupSlabs threePlaneGroup ! 0) =
     [mkPlane (Fin 0) (Fin 0) (Fin 1) (Fin 1), mkPlane (Fin 0) (Fin 0) (Fin 1) (Fin 3)] \<and>
   length (cellVertices (groupSlabs threePlaneGroup ! 1)) = 8 \<and>
   length (edges (groupSlabs threePlaneGroup ! 1)) = 12"
proof -
  have len: "length (planes threePlaneGroup) = 3"
    by (simp add: threePlaneGroup_def solverInput_def)
  have srt: "sort_by_d (planes threePlaneGroup) =
      solverInput [mkPlane (Fin 0) (Fin 0) (Fin 1) (Fin 1), mkPlane (Fin 0) (Fin 0) (Fin 1) (Fin 3),
                   mkPlane (Fin 0) (Fin 0) (Fin 1) (Fin 5)]"
    by (simp add: threePlaneGroup_def solverInput_def mkPlane_def)
  have nn: "\<forall>p \<in> set (planes threePlaneGroup). d_of p \<noteq> NaN"
    by (simp add: threePlaneGroup_def solverInput_def mkPlane_def d_of_def)
  have i0: "(0::nat) < length (planes threePlaneGroup) - 1" and i1: "(1::nat) < length (planes threePlaneGroup) - 1"
    by (simp_all add: len)
  note main = slab_builder_group [of "emptyPartitioner []" threePlaneGroup]
  from main have A: "cells (slabsOfGroup threePlaneGroup (emptyPartitioner [])) =
      cells (emptyPartitioner []) @ groupSlabs threePlaneGroup"
    and B: "length (groupSlabs threePlaneGroup) = length (planes threePlaneGroup) - 1"
    by blast+
  from main nn have D: "ascending_d (sort_by_d (planes threePlaneGroup))" by blast
  from main have E: "\<And>i. i < length (planes threePlaneGroup) - 1 \<Longrightarrow>
      length (cellVertices (groupSlabs threePlaneGroup ! i)) = 8 \<and>
      length (edges (groupSlabs threePlaneGroup ! i)) = 12 \<and>
      boundaryPlanes (groupSlabs threePlaneGroup ! i) =
        [plane (sort_by_d (planes threePlaneGroup) ! i), plane (sort_by_d (planes threePlaneGroup) ! (i + 1))]"
    by blast
  have s: "map d_of (sort_by_d (planes threePlaneGroup)) = [Fin 1, Fin 3, Fin 5]"
    by (simp add: srt solverInput_def d_of_def mkPlane_def)
  have b0: "boundaryPlanes (groupSlabs threePlaneGroup ! 0) =
     [mkPlane (Fin 0) (Fin 0) (Fin 1) (Fin 1), mkPlane (Fin 0) (Fin 0) (Fin 1) (Fin 3)]"
    using E [OF i0] by (simp add: srt solverInput_def)
  from A B have n: "length (cells (slabsOfGroup threePlaneGroup (emptyPartitioner []))) = 2"
    by (simp add: len emptyPartitioner_def)
  from len s D n b0 E [OF i1] show ?thesis by simp
qed

text \<open>
  Claim C5, on three input planes with a zero normal, which the constructor and
  \<^verbatim>\<open>computeCells\<close> hand to the solver as the non-parallel set: the solver accepts the
  vertex \<open>(NaN, NaN, NaN)\<close>, tagged with the plane indices 0, 1, 2, and it is the vertex
  of the cell returned. Its signed distance to the first plane is \<open>NaN\<close>, which is
  neither at most the tolerance nor within it in absolute value: the vertex satisfies
  no plane equation, yet it passes the test \<^verbatim>\<open>distance > 0.0001f\<close> of every plane,
  because that comparison is false on \<open>NaN\<close>.
\<close>

theorem accepted_vertex_nan_distance:
  "nonParallelPlanes (snd (computeCells (newSpacePartitioner zeroNormalInput))) = zeroNormalInput \<and>
   intersectionVertices zeroNormalInput = [nanVertex] \<and>
   cellVertices (fst (computeCells (newSpacePartitioner zeroNormalInput)) ! 3) = [nanVertex] \<and>
   associatedPlanes nanVertex = [0, 1, 2] \<and>
   computeDistance (plane (zeroNormalInput ! 0)) (vertexPos nanVertex) = NaN \<and>
   \<not> fge tolerance (computeDistance (plane (zeroNormalInput ! 0)) (vertexPos nanVertex)) \<and>
   \<not> satisfiesPlaneEquation (plane (zeroNormalInput ! 0)) nanVertex \<and>
   passesFilter (plane (zeroNormalInput ! 0)) nanVertex"
proof -
  have a: "nonParallelPlanes (snd (computeCells (newSpacePartitioner zeroNormalInput))) = zeroNormalInput"
    unfolding zeroNormal_state
    by (simp add: computeCells_def computeNonParallelPlaneCells_def computeParallelPlaneCells_eq Let_def
      zeroNormal_nonParallel findIntersectionVertices_def createCellFromIntersection_def
      zeroNormal_vertices del: filter_append)
  have n: "length (concat (map groupSlabs zeroNormalGroups)) = 3"
    by (simp add: zeroNormalGroups_def groupSlabs_def)
  have b: "cellVertices (fst (computeCells (newSpacePartitioner zeroNormalInput)) ! 3) = [nanVertex]"
    using n by (simp add: zeroNormal_cells nth_append)
  have t: "associatedPlanes nanVertex = [0, 1, 2]"
    by (simp add: nanVertex_def)
  have c: "computeDistance (plane (zeroNormalInput ! 0)) (vertexPos nanVertex) = NaN"
    by (simp add: zeroNormalInput_def zeroNormalPlane_def nanVertex_def mkPlane_def vertexPos_def Vec3_def
        computeDistance_def)
  have d: "\<not> fge tolerance (computeDistance (plane (zeroNormalInput ! 0)) (vertexPos nanVertex))"
    unfolding c by (simp add: fge_def tolerance_value)
  have e: "\<not> satisfiesPlaneEquation (plane (zeroNormalInput ! 0)) nanVertex"
    unfolding satisfiesPlaneEquation_def c by (simp add: fge_def tolerance_value)
  have f: "passesFilter (plane (zeroNormalInput ! 0)) nanVertex"
    unfolding passesFilter_def c by (simp add: fgt_def)
  show ?thesis
    by (intro conjI) (rule a zeroNormal_vertices b t c d e f)+
qed

text \<open>
  Claim C6, on three planes through the z-axis: the matrix of the triple has determinant
  zero, GLM's inverse divides by it without throwing, the point computed has \<open>NaN\<close>
  coordinates, every comparison \<^verbatim>\<open>distance > 0.0001f\<close> is false on \<open>NaN\<close>, and so the triple
  is not skipped: the solver accepts a vertex \<open>(NaN, NaN, NaN)\<close> and assembles a cell from
  it. The same happens through the constructor and \<^verbatim>\<open>computeCells\<close> for three input
  planes with a zero normal, which are the non-parallel set: the fourth cell returned
  is that cell.
\<close>

theorem singular_triple_accepted:
  "glm_determinant (Mat3 (Fin 1) (Fin 0) (Fin 0) (Fin 0) (Fin 1) (Fin 0) (Fin 3) (Fin 4) (Fin 0)) = Fin 0 \<and>
   computePlaneIntersection (plane (zaxisPlanes ! 0)) (plane (zaxisPlanes ! 1)) (plane (zaxisPlanes ! 2)) =
     Vec3 NaN NaN NaN \<and>
   intersectionVertices zaxisPlanes = [nanVertex] \<and>
   cells (findIntersectionVertices zaxisPlanes (emptyPartitioner zaxisPlanes)) =
     [\<lparr>cellVertices = [nanVertex], edges = [], boundaryPlanes = map plane zaxisPlanes\<rparr>] \<and>
   nonParallelPlanes (snd (computeCells (newSpacePartitioner zeroNormalInput))) = zeroNormalInput \<and>
   drop 3 (fst (computeCells (newSpacePartitioner zeroNormalInput))) =
     [\<lparr>cellVertices = [nanVertex], edges = [], boundaryPlanes = map plane zeroNormalInput\<rparr>]"
proof -
  have a: "glm_determinant (Mat3 (Fin 1) (Fin 0) (Fin 0) (Fin 0) (Fin 1) (Fin 0) (Fin 3) (Fin 4) (Fin 0)) = Fin 0"
    by (simp add: glm_defs)
  have b: "computePlaneIntersection (plane (zaxisPlanes ! 0)) (plane (zaxisPlanes ! 1)) (plane (zaxisPlanes ! 2)) =
     Vec3 NaN NaN NaN"
    by (simp add: zaxisPlanes_def solverInput_def mkPlane_def computePlaneIntersection_def glm_defs Let_def)
  have c: "cells (findIntersectionVertices zaxisPlanes (emptyPartitioner zaxisPlanes)) =
     [\<lparr>cellVertices = [nanVertex], edges = [], boundaryPlanes = map plane zaxisPlanes\<rparr>]"
    by (simp add: findIntersectionVertices_cells zaxis_vertices emptyPartitioner_def assembledCell_def
        cellEdges_def nanVertex_def)
  have d: "nonParallelPlanes (snd (computeCells (newSpacePartitioner zeroNormalInput))) = zeroNormalInput"
    unfolding zeroNormal_state
    by (simp add: computeCells_def computeNonParallelPlaneCells_def computeParallelPlaneCells_eq Let_def
      zeroNormal_nonParallel findIntersectionVertices_def createCellFromIntersection_def
      zeroNormal_vertices del: filter_append)
  have "length (concat (map groupSlabs zeroNormalGroups)) = 3"
    by (simp add: zeroNormalGroups_def groupSlabs_def)
  then have e: "drop 3 (fst (computeCells (newSpacePartitioner zeroNormalInput))) =
     [\<lparr>cellVertices = [nanVertex], edges = [], boundaryPlanes = map plane zeroNormalInput\<rparr>]"
    by (simp add: zeroNormal_cells)
  from a b c d e zaxis_vertices show ?thesis by blast
qed



text \<open>
  Witness for C9: the box \<open>[-1, 1]\<^sup>3\<close> is made of finite floats and the origin is strictly
  inside it; the origin has a signed distance \<open>\<ge> 0\<close> to each of the six closure planes,
  each of the four vertices of a closure plane lies on it, the min-X plane carries the
  four corners of the face \<open>x = -1\<close>, and the six planes are what is appended.
\<close>

theorem addBoundingBoxPlanes_closure_witness:
  "strictlyInside unitBox (Vec3 (Fin 0) (Fin 0) (Fin 0)) \<and> finite_vec3 (Vec3 (Fin 0) (Fin 0) (Fin 0)) \<and>
   finiteBox unitBox \<and>
   length (boxPlanes unitBox) = 6 \<and>
   list_all (\<lambda>cp. fge (computeDistance (plane cp) (Vec3 (Fin 0) (Fin 0) (Fin 0))) (Fin 0)) (boxPlanes unitBox) \<and>
   list_all (\<lambda>cp. list_all (\<lambda>v. computeDistance (plane cp) (vertexPos v) = Fin 0) (vertices cp)) (boxPlanes unitBox) \<and>
   vertices (boxPlanes unitBox ! 0) =
     [mkVertex (Fin (- 1)) (Fin (- 1)) (Fin (- 1)), mkVertex (Fin (- 1)) (Fin 1) (Fin (- 1)),
      mkVertex (Fin (- 1)) (Fin 1) (Fin 1), mkVertex (Fin (- 1)) (Fin (- 1)) (Fin 1)] \<and>
   originalPlanes (addBoundingBoxPlanes unitBox (emptyPartitioner [])) = boxPlanes unitBox"
proof -
  have ins: "strictlyInside unitBox (Vec3 (Fin 0) (Fin 0) (Fin 0))"
    by (simp add: strictlyInside_def unitBox_def Vec3_def)
  have fpt: "finite_vec3 (Vec3 (Fin 0) (Fin 0) (Fin 0))"
    by (simp add: finite_vec3_def finite_float_def is_float_def Vec3_def is_finite_def rnd_ints)
  have fin: "finiteBox unitBox"
    by (simp add: finiteBox_def finite_vec3_def finite_float_def is_float_def unitBox_def Vec3_def
        is_finite_def rnd_ints)
  note main = addBoundingBoxPlanes_closure [of unitBox "emptyPartitioner []" "Vec3 (Fin 0) (Fin 0) (Fin 0)" "[]"]
  from main have six: "length (boxPlanes unitBox) = 6"
    by (elim conjE)
  from main ins fpt have a: "\<forall>cp \<in> set (boxPlanes unitBox). fge (computeDistance (plane cp) (Vec3 (Fin 0) (Fin 0) (Fin 0))) (Fin 0)"
    by (elim conjE) simp
  from main fin have b: "\<forall>cp \<in> set (boxPlanes unitBox). \<forall>v \<in> set (vertices cp).
         computeDistance (plane cp) (vertexPos v) = Fin 0"
    by (elim conjE) simp
  from main have c: "originalPlanes (addBoundingBoxPlanes unitBox (emptyPartitioner [])) =
      originalPlanes (emptyPartitioner []) @ boxPlanes unitBox"
    by (elim conjE)
  from main have "map vertices (boxPlanes unitBox) ! 0 =
     [mkVertex (Fin (- 1)) (Fin (- 1)) (Fin (- 1)), mkVertex (Fin (- 1)) (Fin 1) (Fin (- 1)),
      mkVertex (Fin (- 1)) (Fin 1) (Fin 1), mkVertex (Fin (- 1)) (Fin (- 1)) (Fin 1)]"
    by (elim conjE) (simp add: unitBox_def Vec3_def)
  with six have v: "vertices (boxPlanes unitBox ! 0) =
     [mkVertex (Fin (- 1)) (Fin (- 1)) (Fin (- 1)), mkVertex (Fin (- 1)) (Fin 1) (Fin (- 1)),
      mkVertex (Fin (- 1)) (Fin 1) (Fin 1), mkVertex (Fin (- 1)) (Fin (- 1)) (Fin 1)]"
    by simp
  from ins fpt fin six a b c v show ?thesis
    by (simp add: list_all_iff emptyPartitioner_def)
qed

end
